theory Spec2Isabelle
  imports Main
begin

section \<open>Python values, errors and dictionaries\<close>

text \<open>
  The module \<^verbatim>\<open>RAG/models/generation.py\<close> composes a prompt template, a retriever
  (or a list of databases), a language model and an output parser into a runnable
  pipeline. Strings are modelled as the list of their UTF-8 bytes; a Python \<^verbatim>\<open>dict\<close>
  with string keys is an association list in insertion order with distinct keys.
\<close>

datatype error =
    ValueError string
  | KeyError string
  | TypeError string
  | AssertionError string
  | OutputParserException string
  | Raised string

datatype pyval =
    PyNone
  | PyBool bool
  | PyInt int
  | PyStr string
  | PyList "pyval list"
  | PyDict "(string \<times> pyval) list"
  | PyObject string "(string \<times> pyval) list"

text \<open>\<^verbatim>\<open>d[k] = v\<close>: an existing key keeps its position and takes the new value,
  a new key is appended.\<close>

fun dict_set :: "(string \<times> 'v) list \<Rightarrow> string \<Rightarrow> 'v \<Rightarrow> (string \<times> 'v) list" where
  "dict_set [] k v = [(k, v)]"
| "dict_set ((k', v') # d) k v =
     (if k' = k then (k', v) # d else (k', v') # dict_set d k v)"

text \<open>\<^verbatim>\<open>x[k]\<close> for a string key \<open>k\<close>.\<close>

definition getitem :: "pyval \<Rightarrow> string \<Rightarrow> error + pyval" where
  "getitem x k =
     (case x of
        PyDict d \<Rightarrow> (case map_of d k of Some v \<Rightarrow> Inr v | None \<Rightarrow> Inl (KeyError k))
      | _ \<Rightarrow> Inl (TypeError ''object is not subscriptable by a str key''))"

text \<open>\<^verbatim>\<open>sep.join(xs)\<close>\<close>

fun join :: "string \<Rightarrow> string list \<Rightarrow> string" where
  "join sep [] = []"
| "join sep [x] = x"
| "join sep (x # y # xs) = x @ sep @ join sep (y # xs)"

section \<open>Effects: collaborator calls on an external world\<close>

text \<open>
  The retriever, the databases and the language model are external collaborators. A
  call of one of them acts on a world \<open>'w\<close> that the pipeline itself cannot see, and
  either returns a value or raises. The pipeline's run state holds that world and a
  log of the collaborator calls made so far, in order.
\<close>

datatype call =
    Retrieve pyval
  | ModelCall string
  | BuildContext string pyval int
  | GetDocuments string pyval int

record 'w run_state =
  world :: 'w
  calls :: "call list"

type_synonym ('w, 'a) ext = "'w \<Rightarrow> (error + 'a) \<times> 'w"

type_synonym ('w, 'a) eff = "'w run_state \<Rightarrow> (error + 'a) \<times> 'w run_state"

definition ereturn :: "'a \<Rightarrow> ('w, 'a) eff" where
  "ereturn a = (\<lambda>s. (Inr a, s))"

definition ethrow :: "error \<Rightarrow> ('w, 'a) eff" where
  "ethrow e = (\<lambda>s. (Inl e, s))"

definition lift :: "error + 'a \<Rightarrow> ('w, 'a) eff" where
  "lift r = (\<lambda>s. (r, s))"

definition ebind :: "('w, 'a) eff \<Rightarrow> ('a \<Rightarrow> ('w, 'b) eff) \<Rightarrow> ('w, 'b) eff" where
  "ebind m f = (\<lambda>s. case m s of (Inl e, s') \<Rightarrow> (Inl e, s') | (Inr a, s') \<Rightarrow> f a s')"

definition perform :: "call \<Rightarrow> ('w, 'a) ext \<Rightarrow> ('w, 'a) eff" where
  "perform c f =
     (\<lambda>s. case f (world s) of (r, w') \<Rightarrow> (r, \<lparr>world = w', calls = calls s @ [c]\<rparr>))"

type_synonym 'w retriever = "pyval \<Rightarrow> ('w, pyval) ext"

type_synonym 'w llm = "string \<Rightarrow> ('w, string) ext"

record 'w database =
  source_type :: string
  build_context :: "pyval \<Rightarrow> int \<Rightarrow> ('w, string) ext"
  get_documents_for_each_party :: "pyval \<Rightarrow> int \<Rightarrow> ('w, pyval) ext"

section \<open>The orchestration framework\<close>

text \<open>
  A runnable maps an input to an effectful computation of an output. \<open>pipe\<close> is the
  framework's \<^verbatim>\<open>|\<close>; \<open>RunnableParallel\<close> runs every step on the same input and
  collects the results under the steps' keys (the steps are run here in the order of
  the dictionary); \<open>assign\<close> adds one key to a dictionary input.
\<close>

type_synonym ('w, 'a, 'b) runnable = "'a \<Rightarrow> ('w, 'b) eff"

definition pipe :: "('w, 'a, 'b) runnable \<Rightarrow> ('w, 'b, 'c) runnable \<Rightarrow> ('w, 'a, 'c) runnable" where
  "pipe r1 r2 = (\<lambda>x. ebind (r1 x) r2)"

definition RunnablePassthrough :: "('w, 'a, 'a) runnable" where
  "RunnablePassthrough = ereturn"

fun parallel_steps ::
  "(string \<times> ('w, 'a, pyval) runnable) list \<Rightarrow> 'a \<Rightarrow> ('w, (string \<times> pyval) list) eff" where
  "parallel_steps [] x = ereturn []"
| "parallel_steps ((key, r) # steps) x =
     ebind (r x) (\<lambda>v. ebind (parallel_steps steps x) (\<lambda>d. ereturn ((key, v) # d)))"

definition RunnableParallel ::
  "(string \<times> ('w, 'a, pyval) runnable) list \<Rightarrow> ('w, 'a, pyval) runnable" where
  "RunnableParallel steps = (\<lambda>x. ebind (parallel_steps steps x) (\<lambda>d. ereturn (PyDict d)))"

definition assign :: "string \<Rightarrow> ('w, pyval, pyval) runnable \<Rightarrow> ('w, pyval, pyval) runnable" where
  "assign key r =
     (\<lambda>x. case x of
        PyDict d \<Rightarrow> ebind (r x) (\<lambda>v. ereturn (PyDict (dict_set d key v)))
      | _ \<Rightarrow> ethrow (AssertionError ''The input to RunnablePassthrough.assign() must be a dict.''))"

definition retriever_invoke :: "'w retriever \<Rightarrow> ('w, pyval, pyval) runnable" where
  "retriever_invoke r = (\<lambda>x. perform (Retrieve x) (r x))"

definition llm_invoke :: "'w llm \<Rightarrow> ('w, string, string) runnable" where
  "llm_invoke m = (\<lambda>p. perform (ModelCall p) (m p))"

subsection \<open>Prompt templates\<close>

text \<open>
  A template is read as Python's \<^verbatim>\<open>str.format\<close> reads it, for plain fields: \<^verbatim>\<open>{name}\<close>
  is a field, \<^verbatim>\<open>{{\<close> and \<^verbatim>\<open>}}\<close> stand for one brace, and a brace that is neither
  raises \<^verbatim>\<open>ValueError\<close>. Conversions and format specifications inside a field are not
  modelled: a field is read as a name up to its closing brace.
\<close>

definition single_close_message :: string where
  "single_close_message =
     ''Single '' @ [CHR 0x27] @ ''}'' @ [CHR 0x27] @ '' encountered in format string''"

definition single_open_message :: string where
  "single_open_message =
     ''Single '' @ [CHR 0x27] @ ''{'' @ [CHR 0x27] @ '' encountered in format string''"

definition expected_close_message :: string where
  "expected_close_message =
     ''expected '' @ [CHR 0x27] @ ''}'' @ [CHR 0x27] @ '' before end of string''"

definition unexpected_open_message :: string where
  "unexpected_open_message =
     ''unexpected '' @ [CHR 0x27] @ ''{'' @ [CHR 0x27] @ '' in field name''"

text \<open>Filling a template from the values \<open>env\<close> of its fields. The second argument is
  the field name being read, if any.\<close>

fun py_format :: "(string \<Rightarrow> string option) \<Rightarrow> string option \<Rightarrow> string \<Rightarrow> error + string" where
  "py_format env None [] = Inr []"
| "py_format env None (c # cs) =
     (if c = CHR ''{'' then
        (case cs of
           [] \<Rightarrow> Inl (ValueError single_open_message)
         | d # r \<Rightarrow>
             if d = CHR ''{'' then map_sum id ((#) c) (py_format env None r)
             else py_format env (Some []) cs)
      else if c = CHR ''}'' then
        (case cs of
           [] \<Rightarrow> Inl (ValueError single_close_message)
         | d # r \<Rightarrow>
             if d = CHR ''}'' then map_sum id ((#) c) (py_format env None r)
             else Inl (ValueError single_close_message))
      else map_sum id ((#) c) (py_format env None cs))"
| "py_format env (Some n) [] = Inl (ValueError expected_close_message)"
| "py_format env (Some n) (c # cs) =
     (if c = CHR ''}'' then
        (case env n of
           None \<Rightarrow> Inl (KeyError n)
         | Some v \<Rightarrow> map_sum id ((@) v) (py_format env None cs))
      else if c = CHR ''{'' then Inl (ValueError unexpected_open_message)
      else py_format env (Some (n @ [c])) cs)"

text \<open>Parsing a template for its field names, in order of occurrence: the same scan,
  with the same errors for a malformed template.\<close>

fun template_variables :: "string option \<Rightarrow> string \<Rightarrow> error + string list" where
  "template_variables None [] = Inr []"
| "template_variables None (c # cs) =
     (if c = CHR ''{'' then
        (case cs of
           [] \<Rightarrow> Inl (ValueError single_open_message)
         | d # r \<Rightarrow>
             if d = CHR ''{'' then template_variables None r
             else template_variables (Some []) cs)
      else if c = CHR ''}'' then
        (case cs of
           [] \<Rightarrow> Inl (ValueError single_close_message)
         | d # r \<Rightarrow>
             if d = CHR ''}'' then template_variables None r
             else Inl (ValueError single_close_message))
      else template_variables None cs)"
| "template_variables (Some n) [] = Inl (ValueError expected_close_message)"
| "template_variables (Some n) (c # cs) =
     (if c = CHR ''}'' then map_sum id ((#) n) (template_variables None cs)
      else if c = CHR ''{'' then Inl (ValueError unexpected_open_message)
      else template_variables (Some (n @ [c])) cs)"

record PromptTemplate =
  template :: string
  input_variables :: "string list"
  partial_variables :: "(string \<times> string) list"

text \<open>\<^verbatim>\<open>PromptTemplate.from_template(t)\<close> parses the template when the prompt is built:
  a malformed template raises there, a well-formed one gives the prompt whose input
  variables are the template's fields.\<close>

definition from_template :: "string \<Rightarrow> error + PromptTemplate" where
  "from_template t =
     (case template_variables None t of
        Inl e \<Rightarrow> Inl e
      | Inr vs \<Rightarrow> Inr \<lparr>template = t, input_variables = vs, partial_variables = []\<rparr>)"

text \<open>\<^verbatim>\<open>str(v)\<close>: a string is itself; every other value is rendered by \<open>repr\<close>.\<close>

definition py_str :: "(pyval \<Rightarrow> string) \<Rightarrow> pyval \<Rightarrow> string" where
  "py_str repr v = (case v of PyStr s \<Rightarrow> s | _ \<Rightarrow> repr v)"

text \<open>Filling a prompt from the input mapping: input variables are read from the
  input, every other field from the partial variables.\<close>

definition format_prompt :: "(pyval \<Rightarrow> string) \<Rightarrow> PromptTemplate \<Rightarrow> pyval \<Rightarrow> error + string" where
  "format_prompt repr pt x =
     (case x of
        PyDict d \<Rightarrow>
          py_format
            (\<lambda>n. if n \<in> set (input_variables pt) then map_option (py_str repr) (map_of d n)
                 else map_of (partial_variables pt) n)
            None (template pt)
      | _ \<Rightarrow> Inl (TypeError ''Expected mapping type as input to PromptTemplate''))"

subsection \<open>Output parsers and the parts of the framework taken as given\<close>

text \<open>
  What the framework and the Python runtime compute outside this module is a
  parameter: the constructor of the default chat model, the format instructions the
  JSON parser derives from a schema, the JSON parser itself, and \<^verbatim>\<open>repr\<close>.
\<close>

record ('w, 't) langchain =
  ChatOpenAI :: "string \<Rightarrow> int \<Rightarrow> 't \<Rightarrow> 'w llm"
  get_format_instructions :: "(string \<times> string) list \<Rightarrow> string"
  parse_json :: "string \<Rightarrow> error + pyval"
  py_repr :: "pyval \<Rightarrow> string"

datatype output_parser = StrOutputParser | JsonOutputParser "(string \<times> string) list"

definition parse_output :: "('w, 't) langchain \<Rightarrow> output_parser \<Rightarrow> string \<Rightarrow> error + pyval" where
  "parse_output fw p raw =
     (case p of
        StrOutputParser \<Rightarrow> Inr (PyStr raw)
      | JsonOutputParser schema \<Rightarrow> parse_json fw raw)"

definition parser_invoke :: "('w, 't) langchain \<Rightarrow> output_parser \<Rightarrow> ('w, string, pyval) runnable" where
  "parser_invoke fw p = (\<lambda>raw. lift (parse_output fw p raw))"

definition prompt_invoke :: "('w, 't) langchain \<Rightarrow> PromptTemplate \<Rightarrow> ('w, pyval, string) runnable" where
  "prompt_invoke fw pt = (\<lambda>x. lift (format_prompt (py_repr fw) pt x))"

section \<open>The module\<close>

text \<open>\<^verbatim>\<open>class PartySummaries(BaseModel)\<close>: six required text fields, each with its
  description.\<close>

definition PartySummaries :: "(string \<times> string) list" where
  "PartySummaries =
    [(''cdu'', ''Antwort auf die Frage des Nutzers basierend auf den Positionen der Partei CDU/CSU''),
     (''spd'', ''Antwort auf die Frage des Nutzers basierend auf den Positionen der Partei SPD''),
     (''gruene'', ''Antwort auf die Frage des Nutzers basierend auf den Positionen der Partei B'' @ [CHR 0xC3, CHR 0xBC] @ ''ndnis 90/Die Gr'' @ [CHR 0xC3, CHR 0xBC] @ ''nen''),
     (''linke'', ''Antwort auf die Frage des Nutzers basierend auf den Positionen der Partei Die Linke''),
     (''fdp'', ''Antwort auf die Frage des Nutzers basierend auf den Positionen der Partei FDP''),
     (''afd'', ''Antwort auf die Frage des Nutzers basierend auf den Positionen der Partei AfD'')]"

subsection \<open>\<^verbatim>\<open>generate_chain\<close>\<close>

definition single_prompt_template :: string where
  "single_prompt_template =
   ''\<newline>'' @
   ''    Du hilfst dabei, die politischen Positionen der Parteien CDU/CSU, SPD, B'' @ [CHR 0xC3, CHR 0xBC] @ ''ndnis 90/Die Gr'' @ [CHR 0xC3, CHR 0xBC] @ ''nen, Die Linke, FDP und AfD zur Europawahl 2024 zusammenzufassen.\<newline>'' @
   ''    Beantworte die folgende Frage nur auf dem zur Verf'' @ [CHR 0xC3, CHR 0xBC] @ ''gung gestellten Kontext.\<newline>'' @
   ''    Falls sich die Frage auf Basis des Kontexts nicht beantworten l'' @ [CHR 0xC3, CHR 0xA4] @ ''sst, gib eine kurze Begr'' @ [CHR 0xC3, CHR 0xBC] @ ''ndung an.\<newline>'' @
   ''    Beantworte die Frage auf Deutsch.\<newline>'' @
   ''\<newline>'' @
   ''    FRAGE: {question}\<newline>'' @
   ''\<newline>'' @
   ''    KONTEXT:\<newline>'' @
   ''    {context}\<newline>'' @
   ''    ''"

definition value_error_message :: string where
  "value_error_message =
     ''output_parser must be '' @ [CHR 0x27] @ ''json'' @ [CHR 0x27] @ '' or '' @ [CHR 0x27] @ ''str'' @ [CHR 0x27]"

text \<open>\<^verbatim>\<open>if llm == None: llm = ChatOpenAI(model_name="gpt-3.5-turbo", max_tokens=2000,
  temperature=temperature)\<close>, the first statement of both builders.\<close>

definition llm_or_default :: "('w, 't) langchain \<Rightarrow> 'w llm option \<Rightarrow> 't \<Rightarrow> 'w llm" where
  "llm_or_default fw llm temperature =
     (case llm of
        None \<Rightarrow> ChatOpenAI fw ''gpt-3.5-turbo'' 2000 temperature
      | Some m \<Rightarrow> m)"

text \<open>The selection of the output parser and of the question prompt, the same
  \<^verbatim>\<open>if\<close>/\<^verbatim>\<open>elif\<close>/\<^verbatim>\<open>else\<close> block in both builders. In the \<open>str\<close> branch the
  prompt comes from \<open>from_template\<close>, which can raise.\<close>

definition select_output_parser ::
  "('w, 't) langchain \<Rightarrow> string \<Rightarrow> string \<Rightarrow> error + output_parser \<times> PromptTemplate" where
  "select_output_parser fw prompt_template output_parser =
     (if output_parser = ''json'' then
        (let output_parser = JsonOutputParser PartySummaries;
             prompt_template = prompt_template @ ''\<newline>\<newline>{format_instructions}\<newline>'';
             question_prompt =
               \<lparr>template = prompt_template,
                input_variables = [''question'', ''context''],
                partial_variables =
                  [(''format_instructions'', get_format_instructions fw PartySummaries)]\<rparr>
         in Inr (output_parser, question_prompt))
      else if output_parser = ''str'' then
        (let output_parser = StrOutputParser
         in case from_template prompt_template of
              Inl e \<Rightarrow> Inl e
            | Inr question_prompt \<Rightarrow> Inr (output_parser, question_prompt))
      else Inl (ValueError value_error_message))"

text \<open>
  The retriever is modelled at its documented type, a retriever object. The language
  model is optional: \<open>None\<close> selects the default model, built with the given
  temperature. The result is the pipeline (\<open>chain_with_source\<close> when \<open>verbose\<close>,
  \<open>chain\<close> otherwise) or the error raised while building.
\<close>

definition generate_chain ::
  "('w, 't) langchain \<Rightarrow> 'w retriever \<Rightarrow> 'w llm option \<Rightarrow> string \<Rightarrow> bool \<Rightarrow> 't
     \<Rightarrow> error + ('w, pyval, pyval) runnable" where
  "generate_chain fw retriever llm output_parser verbose temperature =
     (let prompt_template = single_prompt_template;
          llm = llm_or_default fw llm temperature
      in case select_output_parser fw prompt_template output_parser of
           Inl e \<Rightarrow> Inl e
         | Inr (output_parser, question_prompt) \<Rightarrow>
             (let rag_chain_from_docs =
                    pipe (pipe (pipe (assign ''context'' (\<lambda>x. lift (getitem x ''context'')))
                                     (prompt_invoke fw question_prompt))
                               (llm_invoke llm))
                         (parser_invoke fw StrOutputParser);
                  chain_with_source =
                    pipe (RunnableParallel
                            [(''context'', retriever_invoke retriever),
                             (''question'', RunnablePassthrough)])
                         (assign ''answer'' rag_chain_from_docs);
                  chain =
                    pipe (pipe (pipe (RunnableParallel
                                        [(''context'', retriever_invoke retriever),
                                         (''question'', RunnablePassthrough)])
                                     (prompt_invoke fw question_prompt))
                               (llm_invoke llm))
                         (parser_invoke fw output_parser)
              in Inr (if verbose then chain_with_source else chain)))"

subsection \<open>\<^verbatim>\<open>generate_chain_with_balanced_retrieval\<close>\<close>

text \<open>The f-string of the source, evaluated with the given \<open>language\<close>.\<close>

definition balanced_prompt_template :: "string \<Rightarrow> string" where
  "balanced_prompt_template language =
   ''   \<newline>'' @
   ''    Beantworte die Frage und erstelle pro Partei eine Zusammenfassung der politischen Positionen von CDU/CSU, SPD, B'' @ [CHR 0xC3, CHR 0xBC] @ ''ndnis 90/Die Gr'' @ [CHR 0xC3, CHR 0xBC] @ ''nen, Die Linke, FDP und AfD zur Europawahl 2024 auf Basis der Debatten im EU-Parlament und der EU-Wahlprogramme. \<newline>'' @
   ''    Die Antwort soll strikt die Informationen aus den genannten Quellen widerspiegeln. \<newline>'' @
   ''    Mach deutlich, die Antwort entspricht den Position der Parteien.\<newline>'' @
   ''    Gebe die Antwort auf '' @ language @ ''.\<newline>'' @
   ''\<newline>'' @
   ''    KONTEXT:\<newline>'' @
   ''    {context}\<newline>'' @
   ''\<newline>'' @
   ''        Sollten die oben genannten Quellen keine klare Antwort auf die unten genannte Frage zulassen, gib bitte folgende R'' @ [CHR 0xC3, CHR 0xBC] @ ''ckmeldung: '' @ [CHR 0x22] @ ''Es wurde keine passende Antwort in den verf'' @ [CHR 0xC3, CHR 0xBC] @ ''gbaren Daten gefunden.'' @ [CHR 0x22] @ ''\<newline>'' @
   ''    Andernfalls gib wie oben beschrieben eine Zusammenfassung der Positionen der Parteien wieder, wodurch die nun folgende Frage beantwortet wird:\<newline>'' @
   ''\<newline>'' @
   ''    FRAGE: \<newline>'' @
   ''    {question}\<newline>'' @
   ''    ''"

text \<open>\<^verbatim>\<open>[db.build_context(query=x["question"], k=k) for db in dbs]\<close>\<close>

fun build_contexts :: "'w database list \<Rightarrow> int \<Rightarrow> pyval \<Rightarrow> ('w, string list) eff" where
  "build_contexts [] k x = ereturn []"
| "build_contexts (db # dbs) k x =
     ebind (lift (getitem x ''question''))
       (\<lambda>q. ebind (perform (BuildContext (source_type db) q k) (build_context db q k))
         (\<lambda>t. ebind (build_contexts dbs k x) (\<lambda>ts. ereturn (t # ts))))"

definition joined_context :: "'w database list \<Rightarrow> int \<Rightarrow> ('w, pyval, pyval) runnable" where
  "joined_context dbs k =
     (\<lambda>x. ebind (build_contexts dbs k x) (\<lambda>ts. ereturn (PyStr (join ''\<newline>\<newline>'' ts))))"

text \<open>\<^verbatim>\<open>{db.source_type: db.get_documents_for_each_party(query=x["question"], k=k) for db in dbs}\<close>,
  the dictionary built so far being the third argument.\<close>

fun party_documents ::
  "'w database list \<Rightarrow> int \<Rightarrow> (string \<times> pyval) list \<Rightarrow> pyval \<Rightarrow> ('w, (string \<times> pyval) list) eff" where
  "party_documents [] k acc x = ereturn acc"
| "party_documents (db # dbs) k acc x =
     ebind (lift (getitem x ''question''))
       (\<lambda>q. ebind (perform (GetDocuments (source_type db) q k)
                      (get_documents_for_each_party db q k))
         (\<lambda>v. party_documents dbs k (dict_set acc (source_type db) v) x))"

definition docs_by_source :: "'w database list \<Rightarrow> int \<Rightarrow> ('w, pyval, pyval) runnable" where
  "docs_by_source dbs k = (\<lambda>x. ebind (party_documents dbs k [] x) (\<lambda>d. ereturn (PyDict d)))"

definition generate_chain_with_balanced_retrieval ::
  "('w, 't) langchain \<Rightarrow> 'w database list \<Rightarrow> 'w llm option \<Rightarrow> string \<Rightarrow> 't \<Rightarrow> int \<Rightarrow> bool
     \<Rightarrow> string \<Rightarrow> error + ('w, pyval, pyval) runnable" where
  "generate_chain_with_balanced_retrieval fw dbs llm output_parser temperature k
       return_context language =
     (let llm = llm_or_default fw llm temperature;
          prompt_template = balanced_prompt_template language
      in case select_output_parser fw prompt_template output_parser of
           Inl e \<Rightarrow> Inl e
         | Inr (output_parser, question_prompt) \<Rightarrow>
             (if return_context then
                (let prompting_chain =
                       pipe (pipe (pipe RunnablePassthrough (prompt_invoke fw question_prompt))
                                  (llm_invoke llm))
                            (parser_invoke fw output_parser);
                     full_chain =
                       pipe (RunnableParallel [(''question'', RunnablePassthrough)])
                            (pipe (RunnableParallel
                                     [(''question'', (\<lambda>x. lift (getitem x ''question''))),
                                      (''context'', joined_context dbs k),
                                      (''docs'', docs_by_source dbs k)])
                                  (assign ''answer'' prompting_chain))
                 in Inr full_chain)
              else
                (let input_chain =
                       pipe (RunnableParallel [(''question'', RunnablePassthrough)])
                            (RunnableParallel
                               [(''question'', (\<lambda>x. lift (getitem x ''question''))),
                                (''context'', joined_context dbs k)]);
                     full_chain =
                       RunnableParallel
                         [(''question'', RunnablePassthrough),
                          (''answer'',
                           pipe (pipe (pipe input_chain (prompt_invoke fw question_prompt))
                                      (llm_invoke llm))
                                (parser_invoke fw output_parser))]
                 in Inr full_chain)))"

text \<open>Invoking a built pipeline on an input, from a world in which no call has been
  logged yet.\<close>

definition invoke :: "('w, pyval, pyval) runnable \<Rightarrow> pyval \<Rightarrow> 'w \<Rightarrow> (error + pyval) \<times> 'w run_state" where
  "invoke chain x w = chain x \<lparr>world = w, calls = []\<rparr>"


section \<open>Vocabulary of the properties\<close>

text \<open>A collaborator call that answers \<open>v\<close> whatever the world is: a stub.\<close>

definition returns :: "('w, 'a) ext \<Rightarrow> 'a \<Rightarrow> bool" where
  "returns f v \<longleftrightarrow> (\<forall>w. fst (f w) = Inr v)"

text \<open>A collaborator call whose outcome (value or error) does not depend on the world.\<close>

definition deterministic :: "('w, 'a) ext \<Rightarrow> bool" where
  "deterministic f \<longleftrightarrow> (\<forall>w w'. fst (f w) = fst (f w'))"

text \<open>A computation whose outcome does not depend on the run state it starts from.\<close>

definition stateless :: "('w, 'a) eff \<Rightarrow> bool" where
  "stateless m \<longleftrightarrow> (\<forall>s s'. fst (m s) = fst (m s'))"

text \<open>Building and invoking in one step: the outcome.\<close>

definition run_chain ::
  "error + ('w, pyval, pyval) runnable \<Rightarrow> pyval \<Rightarrow> 'w \<Rightarrow> error + pyval" where
  "run_chain built x w = (case built of Inl e \<Rightarrow> Inl e | Inr chain \<Rightarrow> fst (invoke chain x w))"

text \<open>The text of \<open>single_prompt_template\<close> with the question \<open>q\<close> and the context \<open>c\<close>
  in the place of its two fields.\<close>

definition single_prompt_filled :: "string \<Rightarrow> string \<Rightarrow> string" where
  "single_prompt_filled q c =
   ''\<newline>'' @
   ''    Du hilfst dabei, die politischen Positionen der Parteien CDU/CSU, SPD, B'' @ [CHR 0xC3, CHR 0xBC] @ ''ndnis 90/Die Gr'' @ [CHR 0xC3, CHR 0xBC] @ ''nen, Die Linke, FDP und AfD zur Europawahl 2024 zusammenzufassen.\<newline>'' @
   ''    Beantworte die folgende Frage nur auf dem zur Verf'' @ [CHR 0xC3, CHR 0xBC] @ ''gung gestellten Kontext.\<newline>'' @
   ''    Falls sich die Frage auf Basis des Kontexts nicht beantworten l'' @ [CHR 0xC3, CHR 0xA4] @ ''sst, gib eine kurze Begr'' @ [CHR 0xC3, CHR 0xBC] @ ''ndung an.\<newline>'' @
   ''    Beantworte die Frage auf Deutsch.\<newline>'' @
   ''\<newline>'' @
   ''    FRAGE: '' @ q @ ''\<newline>'' @
   ''\<newline>'' @
   ''    KONTEXT:\<newline>'' @
   ''    '' @ c @ ''\<newline>'' @
   ''    ''"

text \<open>What the JSON mode appends to a filled prompt: the format instructions.\<close>

definition format_suffix :: "('w, 't) langchain \<Rightarrow> string \<Rightarrow> string" where
  "format_suffix fw output_parser =
     (if output_parser = ''json''
      then ''\<newline>\<newline>'' @ get_format_instructions fw PartySummaries @ ''\<newline>''
      else [])"

text \<open>The dictionary that a database list yields for the \<open>docs\<close> entry when every
  database \<open>db\<close> answers \<open>docs db\<close>: one assignment per database, in list order.\<close>

definition docs_mapping :: "'w database list \<Rightarrow> ('w database \<Rightarrow> pyval) \<Rightarrow> (string \<times> pyval) list" where
  "docs_mapping dbs docs = foldl (\<lambda>acc db. dict_set acc (source_type db) (docs db)) [] dbs"

text \<open>The mapping the balanced chain hands to its prompt: the question \<open>x\<close>, the
  context text \<open>c\<close> and, when the context is returned, the documents \<open>ds\<close>.\<close>

definition prompt_input ::
  "bool \<Rightarrow> pyval \<Rightarrow> string \<Rightarrow> (string \<times> pyval) list \<Rightarrow> (string \<times> pyval) list" where
  "prompt_input return_context x c ds =
     [(''question'', x), (''context'', PyStr c)]
       @ (if return_context then [(''docs'', PyDict ds)] else [])"

definition balanced_prompt_filled :: "string \<Rightarrow> string \<Rightarrow> string \<Rightarrow> string" where
  "balanced_prompt_filled language c q =
   ''   \<newline>'' @
   ''    Beantworte die Frage und erstelle pro Partei eine Zusammenfassung der politischen Positionen von CDU/CSU, SPD, B'' @ [CHR 0xC3, CHR 0xBC] @ ''ndnis 90/Die Gr'' @ [CHR 0xC3, CHR 0xBC] @ ''nen, Die Linke, FDP und AfD zur Europawahl 2024 auf Basis der Debatten im EU-Parlament und der EU-Wahlprogramme. \<newline>'' @
   ''    Die Antwort soll strikt die Informationen aus den genannten Quellen widerspiegeln. \<newline>'' @
   ''    Mach deutlich, die Antwort entspricht den Position der Parteien.\<newline>'' @
   ''    Gebe die Antwort auf '' @ language @ ''.\<newline>'' @
   ''\<newline>'' @
   ''    KONTEXT:\<newline>'' @
   ''    '' @ c @ ''\<newline>'' @
   ''\<newline>'' @
   ''        Sollten die oben genannten Quellen keine klare Antwort auf die unten genannte Frage zulassen, gib bitte folgende R'' @ [CHR 0xC3, CHR 0xBC] @ ''ckmeldung: '' @ [CHR 0x22] @ ''Es wurde keine passende Antwort in den verf'' @ [CHR 0xC3, CHR 0xBC] @ ''gbaren Daten gefunden.'' @ [CHR 0x22] @ ''\<newline>'' @
   ''    Andernfalls gib wie oben beschrieben eine Zusammenfassung der Positionen der Parteien wieder, wodurch die nun folgende Frage beantwortet wird:\<newline>'' @
   ''\<newline>'' @
   ''    FRAGE: \<newline>'' @
   ''    '' @ q @ ''\<newline>'' @
   ''    ''"

section \<open>Stub collaborators\<close>

text \<open>
  Deterministic stubs over a world that only counts the calls made to it. The stub
  model always emits one six-field JSON payload; the stub JSON parser reads exactly
  that payload.
\<close>

definition stub_payload :: string where
  "stub_payload =
     ''{'' @ [CHR 0x22] @ ''cdu'' @ [CHR 0x22] @ '': '' @ [CHR 0x22] @ ''c'' @ [CHR 0x22] @
     '', '' @ [CHR 0x22] @ ''spd'' @ [CHR 0x22] @ '': '' @ [CHR 0x22] @ ''s'' @ [CHR 0x22] @
     '', '' @ [CHR 0x22] @ ''gruene'' @ [CHR 0x22] @ '': '' @ [CHR 0x22] @ ''g'' @ [CHR 0x22] @
     '', '' @ [CHR 0x22] @ ''linke'' @ [CHR 0x22] @ '': '' @ [CHR 0x22] @ ''l'' @ [CHR 0x22] @
     '', '' @ [CHR 0x22] @ ''fdp'' @ [CHR 0x22] @ '': '' @ [CHR 0x22] @ ''f'' @ [CHR 0x22] @
     '', '' @ [CHR 0x22] @ ''afd'' @ [CHR 0x22] @ '': '' @ [CHR 0x22] @ ''a'' @ [CHR 0x22] @ ''}''"

definition stub_summaries :: "(string \<times> pyval) list" where
  "stub_summaries =
     [(''cdu'', PyStr ''c''), (''spd'', PyStr ''s''), (''gruene'', PyStr ''g''),
      (''linke'', PyStr ''l''), (''fdp'', PyStr ''f''), (''afd'', PyStr ''a'')]"

definition stub_llm :: "nat llm" where
  "stub_llm p w = (Inr stub_payload, Suc w)"

definition stub_documents :: pyval where
  "stub_documents = PyList [PyStr ''Dokument 1'', PyStr ''Dokument 2'']"

definition stub_retriever :: "nat retriever" where
  "stub_retriever x w = (Inr stub_documents, Suc w)"

definition stub_framework :: "(nat, int) langchain" where
  "stub_framework =
     \<lparr>ChatOpenAI = (\<lambda>model_name max_tokens temperature. stub_llm),
      get_format_instructions = (\<lambda>schema. ''Return a JSON object.''),
      parse_json =
        (\<lambda>raw. if raw = stub_payload then Inr (PyDict stub_summaries)
               else Inl (OutputParserException raw)),
      py_repr = (\<lambda>v. ''<object>'')\<rparr>"

definition stub_db :: "string \<Rightarrow> string \<Rightarrow> pyval \<Rightarrow> nat database" where
  "stub_db source text documents =
     \<lparr>source_type = source,
      build_context = (\<lambda>query k w. (Inr text, Suc w)),
      get_documents_for_each_party = (\<lambda>query k w. (Inr documents, Suc w))\<rparr>"

definition stub_question :: pyval where
  "stub_question = PyStr ''Was ist die Position der SPD zur Solarenergie?''"

text \<open>The question prompt of the balanced chain for the default language, in \<open>str\<close>
  mode.\<close>

definition deutsch_prompt :: PromptTemplate where
  "deutsch_prompt =
     \<lparr>template = balanced_prompt_template ''Deutsch'',
      input_variables = [''context'', ''question''],
      partial_variables = []\<rparr>"

definition stub_text :: "nat database \<Rightarrow> string" where
  "stub_text db = (case fst (build_context db stub_question 5 0) of Inr t \<Rightarrow> t | Inl e \<Rightarrow> [])"

definition stub_docs :: "nat database \<Rightarrow> pyval" where
  "stub_docs db =
     (case fst (get_documents_for_each_party db stub_question 5 0) of
        Inr d \<Rightarrow> d
      | Inl e \<Rightarrow> PyNone)"

text \<open>Three databases with distinct sources, returning the contexts A, B and C.\<close>

definition three_dbs :: "nat database list" where
  "three_dbs =
     [stub_db ''debates'' ''A'' (PyDict [(''spd'', PyList [PyStr ''Rede 1''])]),
      stub_db ''manifestos'' ''B'' (PyDict [(''spd'', PyList [PyStr ''Programm 1''])]),
      stub_db ''press'' ''C'' (PyDict [(''spd'', PyList [])])]"

text \<open>Two databases that share one source type and return different documents.\<close>

definition first_manifesto_db :: "nat database" where
  "first_manifesto_db = stub_db ''manifestos'' ''A'' (PyDict [(''spd'', PyList [PyStr ''first''])])"

definition second_manifesto_db :: "nat database" where
  "second_manifesto_db = stub_db ''manifestos'' ''B'' (PyDict [(''spd'', PyList [PyStr ''second''])])"

text \<open>\<^verbatim>\<open>result["answer"][key]\<close> on the outcome of a run.\<close>

definition answer_field :: "error + pyval \<Rightarrow> string \<Rightarrow> error + pyval" where
  "answer_field outcome key =
     (case outcome of
        Inl e \<Rightarrow> Inl e
      | Inr res \<Rightarrow> (case getitem res ''answer'' of Inl e \<Rightarrow> Inl e | Inr a \<Rightarrow> getitem a key))"

section \<open>Running computations\<close>

lemma ebind_run:
  "ebind m f s = (case fst (m s) of Inl e \<Rightarrow> (Inl e, snd (m s)) | Inr a \<Rightarrow> f a (snd (m s)))"
  by (simp add: ebind_def split: prod.split sum.split)

lemma ereturn_run: "ereturn a s = (Inr a, s)"
  by (simp add: ereturn_def)

lemma ethrow_run: "ethrow e s = (Inl e, s)"
  by (simp add: ethrow_def)

lemma lift_run: "lift r s = (r, s)"
  by (simp add: lift_def)

lemma perform_fst: "fst (perform c f s) = fst (f (world s))"
  by (simp add: perform_def split: prod.split)

lemma perform_snd: "snd (perform c f s) = \<lparr>world = snd (f (world s)), calls = calls s @ [c]\<rparr>"
  by (simp add: perform_def split: prod.split)

lemma pipe_run: "pipe r1 r2 x = ebind (r1 x) r2"
  by (simp add: pipe_def)

lemmas run_simps = ebind_run ereturn_run ethrow_run lift_run perform_fst perform_snd pipe_run
  RunnablePassthrough_def RunnableParallel_def assign_def retriever_invoke_def llm_invoke_def
  prompt_invoke_def parser_invoke_def invoke_def getitem_def

lemma returns_fst: "returns f v \<Longrightarrow> fst (f w) = Inr v"
  by (simp add: returns_def)

section \<open>Filling the prompt of the single-retriever chain\<close>

lemma single_vars:
  "template_variables None single_prompt_template = Inr [''question'', ''context'']"
  by (simp add: single_prompt_template_def)

lemma single_format:
  assumes "env ''question'' = Some q" "env ''context'' = Some c"
  shows "py_format env None single_prompt_template = Inr (single_prompt_filled q c)"
  using assms by (simp add: single_prompt_template_def single_prompt_filled_def)

lemma single_format_json:
  assumes "env ''question'' = Some q" "env ''context'' = Some c"
    and "env ''format_instructions'' = Some fi"
  shows "py_format env None (single_prompt_template @ ''\<newline>\<newline>{format_instructions}\<newline>'')
     = Inr (single_prompt_filled q c @ ''\<newline>\<newline>'' @ fi @ ''\<newline>'')"
  using assms by (simp add: single_prompt_template_def single_prompt_filled_def)

lemma select_cases:
  assumes "select_output_parser fw t op = Inr (p, qp)"
  shows "(op = ''json'' \<and> p = JsonOutputParser PartySummaries \<and>
        qp = \<lparr>template = t @ ''\<newline>\<newline>{format_instructions}\<newline>'',
              input_variables = [''question'', ''context''],
              partial_variables =
                [(''format_instructions'', get_format_instructions fw PartySummaries)]\<rparr>)
     \<or> (op = ''str'' \<and> p = StrOutputParser \<and> from_template t = Inr qp)"
  using assms by (auto simp: select_output_parser_def Let_def split: if_splits sum.splits)

lemma select_total_json: "\<exists>p qp. select_output_parser fw t ''json'' = Inr (p, qp)"
  by (simp add: select_output_parser_def Let_def)

lemma select_total_str:
  assumes "template_variables None t = Inr vs"
  shows "\<exists>p qp. select_output_parser fw t ''str'' = Inr (p, qp)"
  using assms by (simp add: select_output_parser_def Let_def from_template_def)

lemma select_total_single:
  assumes "op = ''json'' \<or> op = ''str''"
  shows "\<exists>p qp. select_output_parser fw single_prompt_template op = Inr (p, qp)"
  using assms select_total_json[of fw single_prompt_template]
    select_total_str[OF single_vars, of fw] by blast



lemma single_prompt_fill:
  assumes "select_output_parser fw single_prompt_template op = Inr (p, qp)"
    and "map_of d ''question'' = Some q" "map_of d ''context'' = Some c"
  shows "format_prompt repr qp (PyDict d)
     = Inr (single_prompt_filled (py_str repr q) (py_str repr c) @ format_suffix fw op)"
  using select_cases[OF assms(1)]
proof (elim disjE conjE)
  assume "op = ''json''"
    and "qp = \<lparr>template = single_prompt_template @ ''\<newline>\<newline>{format_instructions}\<newline>'',
              input_variables = [''question'', ''context''],
              partial_variables =
                [(''format_instructions'', get_format_instructions fw PartySummaries)]\<rparr>"
  then show ?thesis using assms(2,3)
    by (simp add: format_prompt_def format_suffix_def single_format_json)
next
  assume "op = ''str''" and "from_template single_prompt_template = Inr qp"
  then have "op = ''str''"
    and "qp = \<lparr>template = single_prompt_template,
              input_variables = [''question'', ''context''], partial_variables = []\<rparr>"
    by (simp_all add: from_template_def single_vars)
  then show ?thesis using assms(2,3)
    by (simp add: format_prompt_def format_suffix_def single_format)
qed

text \<open>The two pipelines of \<open>generate_chain\<close>, once the parser has been selected.\<close>

lemma generate_chain_verbose:
  assumes "select_output_parser fw single_prompt_template op = Inr (p, qp)"
  shows "generate_chain fw retriever llm op True temperature =
     Inr (pipe (RunnableParallel
                  [(''context'', retriever_invoke retriever), (''question'', RunnablePassthrough)])
               (assign ''answer''
                  (pipe (pipe (pipe (assign ''context'' (\<lambda>x. lift (getitem x ''context'')))
                                    (prompt_invoke fw qp))
                              (llm_invoke (llm_or_default fw llm temperature)))
                        (parser_invoke fw StrOutputParser))))"
  using assms by (simp add: generate_chain_def Let_def)

lemma generate_chain_plain:
  assumes "select_output_parser fw single_prompt_template op = Inr (p, qp)"
  shows "generate_chain fw retriever llm op False temperature =
     Inr (pipe (pipe (pipe (RunnableParallel
                              [(''context'', retriever_invoke retriever),
                               (''question'', RunnablePassthrough)])
                           (prompt_invoke fw qp))
                     (llm_invoke (llm_or_default fw llm temperature)))
               (parser_invoke fw p))"
  using assms by (simp add: generate_chain_def Let_def)

lemma verbose_run:
  assumes sel: "select_output_parser fw single_prompt_template op = Inr (p, qp)"
    and retr: "returns (retriever x) ctx"
    and model: "returns (llm_or_default fw llm temperature
        (single_prompt_filled (py_str (py_repr fw) x) (py_str (py_repr fw) ctx)
           @ format_suffix fw op)) raw"
    and build: "generate_chain fw retriever llm op True temperature = Inr chain"
  shows "fst (invoke chain x w) =
       Inr (PyDict [(''context'', ctx), (''question'', x), (''answer'', PyStr raw)])"
    and "calls (snd (invoke chain x w)) =
       [Retrieve x, ModelCall (single_prompt_filled (py_str (py_repr fw) x) (py_str (py_repr fw) ctx)
           @ format_suffix fw op)]"
proof -
  note fill = single_prompt_fill[OF sel, of "[(''context'', ctx), (''question'', x)]" x ctx "py_repr fw"]
  have chain: "chain = pipe (RunnableParallel
                  [(''context'', retriever_invoke retriever), (''question'', RunnablePassthrough)])
               (assign ''answer''
                  (pipe (pipe (pipe (assign ''context'' (\<lambda>x. lift (getitem x ''context'')))
                                    (prompt_invoke fw qp))
                              (llm_invoke (llm_or_default fw llm temperature)))
                        (parser_invoke fw StrOutputParser)))"
    using build generate_chain_verbose[OF sel, of retriever llm temperature] by simp
  show "fst (invoke chain x w) =
       Inr (PyDict [(''context'', ctx), (''question'', x), (''answer'', PyStr raw)])"
    unfolding chain using fill
    by (simp add: run_simps parse_output_def returns_fst[OF retr] returns_fst[OF model])
  show "calls (snd (invoke chain x w)) =
       [Retrieve x, ModelCall (single_prompt_filled (py_str (py_repr fw) x) (py_str (py_repr fw) ctx)
           @ format_suffix fw op)]"
    unfolding chain using fill
    by (simp add: run_simps parse_output_def returns_fst[OF retr] returns_fst[OF model])
qed

lemma plain_run:
  assumes sel: "select_output_parser fw single_prompt_template op = Inr (p, qp)"
    and retr: "returns (retriever x) ctx"
    and model: "returns (llm_or_default fw llm temperature
        (single_prompt_filled (py_str (py_repr fw) x) (py_str (py_repr fw) ctx)
           @ format_suffix fw op)) raw"
    and build: "generate_chain fw retriever llm op False temperature = Inr chain"
  shows "fst (invoke chain x w) = parse_output fw p raw"
    and "calls (snd (invoke chain x w)) =
       [Retrieve x, ModelCall (single_prompt_filled (py_str (py_repr fw) x) (py_str (py_repr fw) ctx)
           @ format_suffix fw op)]"
proof -
  note fill = single_prompt_fill[OF sel, of "[(''context'', ctx), (''question'', x)]" x ctx "py_repr fw"]
  have chain: "chain = pipe (pipe (pipe (RunnableParallel
                              [(''context'', retriever_invoke retriever),
                               (''question'', RunnablePassthrough)])
                           (prompt_invoke fw qp))
                     (llm_invoke (llm_or_default fw llm temperature)))
               (parser_invoke fw p)"
    using build generate_chain_plain[OF sel, of retriever llm temperature] by simp
  show "fst (invoke chain x w) = parse_output fw p raw"
    unfolding chain using fill
    by (simp add: run_simps returns_fst[OF retr] returns_fst[OF model])
  show "calls (snd (invoke chain x w)) =
       [Retrieve x, ModelCall (single_prompt_filled (py_str (py_repr fw) x) (py_str (py_repr fw) ctx)
           @ format_suffix fw op)]"
    unfolding chain using fill
    by (simp add: run_simps returns_fst[OF retr] returns_fst[OF model])
qed

section \<open>Filling the prompt of the balanced chain\<close>

lemma py_format_skip:
  assumes "CHR ''{'' \<notin> set l" "CHR ''}'' \<notin> set l"
  shows "py_format env None (l @ rest) = map_sum id ((@) l) (py_format env None rest)"
  using assms
proof (induction l)
  case Nil
  show ?case by (cases "py_format env None rest") simp_all
next
  case (Cons a l)
  then show ?case by (cases "py_format env None (l @ rest)"; cases "py_format env None rest") auto
qed

lemma template_variables_skip:
  assumes "CHR ''{'' \<notin> set l" "CHR ''}'' \<notin> set l"
  shows "template_variables None (l @ rest) = template_variables None rest"
  using assms by (induction l) auto

lemma balanced_vars:
  assumes "CHR ''{'' \<notin> set language" "CHR ''}'' \<notin> set language"
  shows "template_variables None (balanced_prompt_template language)
           = Inr [''context'', ''question'']"
  using assms by (simp add: balanced_prompt_template_def template_variables_skip)

lemma balanced_format:
  assumes "CHR ''{'' \<notin> set language" "CHR ''}'' \<notin> set language"
    and "env ''question'' = Some q" "env ''context'' = Some c"
  shows "py_format env None (balanced_prompt_template language)
     = Inr (balanced_prompt_filled language c q)"
  using assms
  by (simp add: balanced_prompt_template_def balanced_prompt_filled_def py_format_skip)

lemma balanced_format_json:
  assumes "CHR ''{'' \<notin> set language" "CHR ''}'' \<notin> set language"
    and "env ''question'' = Some q" "env ''context'' = Some c"
    and "env ''format_instructions'' = Some fi"
  shows "py_format env None
           (balanced_prompt_template language @ ''\<newline>\<newline>{format_instructions}\<newline>'')
     = Inr (balanced_prompt_filled language c q @ ''\<newline>\<newline>'' @ fi @ ''\<newline>'')"
  using assms
  by (simp add: balanced_prompt_template_def balanced_prompt_filled_def py_format_skip)

lemma balanced_prompt_fill:
  assumes "select_output_parser fw (balanced_prompt_template language) op = Inr (p, qp)"
    and "CHR ''{'' \<notin> set language" "CHR ''}'' \<notin> set language"
    and "map_of d ''question'' = Some q" "map_of d ''context'' = Some c"
  shows "format_prompt repr qp (PyDict d)
     = Inr (balanced_prompt_filled language (py_str repr c) (py_str repr q) @ format_suffix fw op)"
  using select_cases[OF assms(1)]
proof (elim disjE conjE)
  assume "op = ''json''"
    and "qp = \<lparr>template = balanced_prompt_template language @ ''\<newline>\<newline>{format_instructions}\<newline>'',
              input_variables = [''question'', ''context''],
              partial_variables =
                [(''format_instructions'', get_format_instructions fw PartySummaries)]\<rparr>"
  then show ?thesis using assms(2-5)
    by (simp add: format_prompt_def format_suffix_def balanced_format_json)
next
  assume "op = ''str''" and "from_template (balanced_prompt_template language) = Inr qp"
  then have "op = ''str''"
    and "qp = \<lparr>template = balanced_prompt_template language,
              input_variables = [''context'', ''question''], partial_variables = []\<rparr>"
    using assms(2,3) by (simp_all add: from_template_def balanced_vars)
  then show ?thesis using assms(2-5)
    by (simp add: format_prompt_def format_suffix_def balanced_format)
qed

section \<open>The databases of the balanced chain\<close>

lemma build_contexts_run:
  assumes "\<forall>db\<in>set dbs. returns (build_context db x k) (text db)"
    and "map_of d ''question'' = Some x"
  shows "fst (build_contexts dbs k (PyDict d) s) = Inr (map text dbs)
       \<and> calls (snd (build_contexts dbs k (PyDict d) s))
           = calls s @ map (\<lambda>db. BuildContext (source_type db) x k) dbs"
  using assms
proof (induction dbs arbitrary: s)
  case Nil
  show ?case by (simp add: ereturn_run)
next
  case (Cons db dbs)
  have here: "\<And>w. fst (build_context db x k w) = Inr (text db)"
    using Cons.prems(1) by (simp add: returns_def)
  have rest: "\<forall>db\<in>set dbs. returns (build_context db x k) (text db)"
    using Cons.prems(1) by simp
  note ih = Cons.IH[OF rest Cons.prems(2)]
  show ?case
    using Cons.prems(2)
    by (simp add: ebind_run lift_run ereturn_run perform_fst perform_snd getitem_def here ih)
qed

lemma party_documents_run:
  assumes "\<forall>db\<in>set dbs. returns (get_documents_for_each_party db x k) (docs db)"
    and "map_of d ''question'' = Some x"
  shows "fst (party_documents dbs k acc (PyDict d) s)
           = Inr (foldl (\<lambda>acc db. dict_set acc (source_type db) (docs db)) acc dbs)
       \<and> calls (snd (party_documents dbs k acc (PyDict d) s))
           = calls s @ map (\<lambda>db. GetDocuments (source_type db) x k) dbs"
  using assms
proof (induction dbs arbitrary: acc s)
  case Nil
  show ?case by (simp add: ereturn_run)
next
  case (Cons db dbs)
  have here: "\<And>w. fst (get_documents_for_each_party db x k w) = Inr (docs db)"
    using Cons.prems(1) by (simp add: returns_def)
  have rest: "\<forall>db\<in>set dbs. returns (get_documents_for_each_party db x k) (docs db)"
    using Cons.prems(1) by simp
  note ih = Cons.IH[OF rest Cons.prems(2)]
  show ?case
    using Cons.prems(2)
    by (simp add: ebind_run lift_run ereturn_run perform_fst perform_snd getitem_def here ih)
qed

section \<open>Running the balanced chain\<close>

lemma balanced_with_context:
  assumes "select_output_parser fw (balanced_prompt_template language) op = Inr (p, qp)"
  shows "generate_chain_with_balanced_retrieval fw dbs llm op temperature k True language =
     Inr (pipe (RunnableParallel [(''question'', RunnablePassthrough)])
               (pipe (RunnableParallel
                        [(''question'', (\<lambda>x. lift (getitem x ''question''))),
                         (''context'', joined_context dbs k),
                         (''docs'', docs_by_source dbs k)])
                     (assign ''answer''
                        (pipe (pipe (pipe RunnablePassthrough (prompt_invoke fw qp))
                                    (llm_invoke (llm_or_default fw llm temperature)))
                              (parser_invoke fw p)))))"
  using assms by (simp add: generate_chain_with_balanced_retrieval_def Let_def)

lemma balanced_without_context:
  assumes "select_output_parser fw (balanced_prompt_template language) op = Inr (p, qp)"
  shows "generate_chain_with_balanced_retrieval fw dbs llm op temperature k False language =
     Inr (RunnableParallel
            [(''question'', RunnablePassthrough),
             (''answer'',
              pipe (pipe (pipe (pipe (RunnableParallel [(''question'', RunnablePassthrough)])
                                     (RunnableParallel
                                        [(''question'', (\<lambda>x. lift (getitem x ''question''))),
                                         (''context'', joined_context dbs k)]))
                               (prompt_invoke fw qp))
                         (llm_invoke (llm_or_default fw llm temperature)))
                   (parser_invoke fw p))])"
  using assms by (simp add: generate_chain_with_balanced_retrieval_def Let_def)

lemma balanced_run_with_context:
  assumes sel: "select_output_parser fw (balanced_prompt_template language) op = Inr (p, qp)"
    and ctx: "\<forall>db\<in>set dbs. returns (build_context db x k) (text db)"
    and docs: "\<forall>db\<in>set dbs. returns (get_documents_for_each_party db x k) (docs db)"
    and fill: "format_prompt (py_repr fw) qp
                 (PyDict (prompt_input True x (join ''\<newline>\<newline>'' (map text dbs))
                    (docs_mapping dbs docs))) = Inr prompt"
    and model: "returns (llm_or_default fw llm temperature prompt) raw"
    and build: "generate_chain_with_balanced_retrieval fw dbs llm op temperature k True language
                  = Inr chain"
  shows "fst (invoke chain x w) =
           (case parse_output fw p raw of
              Inl e \<Rightarrow> Inl e
            | Inr answer \<Rightarrow>
                Inr (PyDict [(''question'', x),
                             (''context'', PyStr (join ''\<newline>\<newline>'' (map text dbs))),
                             (''docs'', PyDict (docs_mapping dbs docs)),
                             (''answer'', answer)]))"
    and "calls (snd (invoke chain x w)) =
           map (\<lambda>db. BuildContext (source_type db) x k) dbs
           @ map (\<lambda>db. GetDocuments (source_type db) x k) dbs @ [ModelCall prompt]"
proof -
  have chain: "chain = pipe (RunnableParallel [(''question'', RunnablePassthrough)])
               (pipe (RunnableParallel
                        [(''question'', (\<lambda>x. lift (getitem x ''question''))),
                         (''context'', joined_context dbs k),
                         (''docs'', docs_by_source dbs k)])
                     (assign ''answer''
                        (pipe (pipe (pipe RunnablePassthrough (prompt_invoke fw qp))
                                    (llm_invoke (llm_or_default fw llm temperature)))
                              (parser_invoke fw p))))"
    using build balanced_with_context[OF sel, of dbs llm temperature k] by simp
  have q: "map_of [(''question'', x)] ''question'' = Some x" by simp
  note bc = build_contexts_run[OF ctx q]
  note pd = party_documents_run[OF docs q, of "[]"]
  have fill': "format_prompt (py_repr fw) qp
      (PyDict [(''question'', x), (''context'', PyStr (join ''\<newline>\<newline>'' (map text dbs))),
               (''docs'', PyDict (foldl (\<lambda>acc db. dict_set acc (source_type db) (docs db)) [] dbs))])
      = Inr prompt"
    using fill by (simp add: prompt_input_def docs_mapping_def)
  show "fst (invoke chain x w) =
           (case parse_output fw p raw of
              Inl e \<Rightarrow> Inl e
            | Inr answer \<Rightarrow>
                Inr (PyDict [(''question'', x),
                             (''context'', PyStr (join ''\<newline>\<newline>'' (map text dbs))),
                             (''docs'', PyDict (docs_mapping dbs docs)),
                             (''answer'', answer)]))"
    unfolding chain
    by (simp add: run_simps joined_context_def docs_by_source_def bc pd fill'
        returns_fst[OF model] docs_mapping_def split: sum.split)
  show "calls (snd (invoke chain x w)) =
           map (\<lambda>db. BuildContext (source_type db) x k) dbs
           @ map (\<lambda>db. GetDocuments (source_type db) x k) dbs @ [ModelCall prompt]"
    unfolding chain
    by (simp add: run_simps joined_context_def docs_by_source_def bc pd fill'
        returns_fst[OF model] docs_mapping_def split: sum.split)
qed

lemma balanced_run_without_context:
  assumes sel: "select_output_parser fw (balanced_prompt_template language) op = Inr (p, qp)"
    and ctx: "\<forall>db\<in>set dbs. returns (build_context db x k) (text db)"
    and fill: "format_prompt (py_repr fw) qp
                 (PyDict (prompt_input False x (join ''\<newline>\<newline>'' (map text dbs)) ds)) = Inr prompt"
    and model: "returns (llm_or_default fw llm temperature prompt) raw"
    and build: "generate_chain_with_balanced_retrieval fw dbs llm op temperature k False language
                  = Inr chain"
  shows "fst (invoke chain x w) =
           (case parse_output fw p raw of
              Inl e \<Rightarrow> Inl e
            | Inr answer \<Rightarrow> Inr (PyDict [(''question'', x), (''answer'', answer)]))"
    and "calls (snd (invoke chain x w)) =
           map (\<lambda>db. BuildContext (source_type db) x k) dbs @ [ModelCall prompt]"
proof -
  have chain: "chain = RunnableParallel
            [(''question'', RunnablePassthrough),
             (''answer'',
              pipe (pipe (pipe (pipe (RunnableParallel [(''question'', RunnablePassthrough)])
                                     (RunnableParallel
                                        [(''question'', (\<lambda>x. lift (getitem x ''question''))),
                                         (''context'', joined_context dbs k)]))
                               (prompt_invoke fw qp))
                         (llm_invoke (llm_or_default fw llm temperature)))
                   (parser_invoke fw p))]"
    using build balanced_without_context[OF sel, of dbs llm temperature k] by simp
  have q: "map_of [(''question'', x)] ''question'' = Some x" by simp
  note bc = build_contexts_run[OF ctx q]
  have fill': "format_prompt (py_repr fw) qp
      (PyDict [(''question'', x), (''context'', PyStr (join ''\<newline>\<newline>'' (map text dbs)))])
      = Inr prompt"
    using fill by (simp add: prompt_input_def)
  show "fst (invoke chain x w) =
           (case parse_output fw p raw of
              Inl e \<Rightarrow> Inl e
            | Inr answer \<Rightarrow> Inr (PyDict [(''question'', x), (''answer'', answer)]))"
    unfolding chain
    by (simp add: run_simps joined_context_def bc fill' returns_fst[OF model] split: sum.split)
  show "calls (snd (invoke chain x w)) =
           map (\<lambda>db. BuildContext (source_type db) x k) dbs @ [ModelCall prompt]"
    unfolding chain
    by (simp add: run_simps joined_context_def bc fill' returns_fst[OF model] split: sum.split)
qed

section \<open>Dictionaries built by assignment\<close>

lemma dict_set_map_of: "map_of (dict_set d k v) = (map_of d)(k \<mapsto> v)"
  by (induction d k v rule: dict_set.induct) auto

lemma dict_set_keys: "fst ` set (dict_set d k v) = insert k (fst ` set d)"
  by (induction d k v rule: dict_set.induct) auto

lemma dict_set_distinct: "distinct (map fst d) \<Longrightarrow> distinct (map fst (dict_set d k v))"
  by (induction d k v rule: dict_set.induct) (auto simp: dict_set_keys)

lemma foldl_dict_set_keys:
  "fst ` set (foldl (\<lambda>acc db. dict_set acc (key db) (val db)) acc dbs)
     = fst ` set acc \<union> key ` set dbs"
  by (induction dbs arbitrary: acc) (simp_all add: dict_set_keys)

lemma foldl_dict_set_distinct:
  "distinct (map fst acc) \<Longrightarrow>
     distinct (map fst (foldl (\<lambda>acc db. dict_set acc (key db) (val db)) acc dbs))"
  by (induction dbs arbitrary: acc) (simp_all add: dict_set_distinct)

lemma foldl_dict_set_map_of:
  "map_of (foldl (\<lambda>acc db. dict_set acc (key db) (val db)) acc dbs) x
     = (map_of acc ++ map_of (rev (map (\<lambda>db. (key db, val db)) dbs))) x"
proof (induction dbs arbitrary: acc)
  case Nil
  show ?case by simp
next
  case (Cons db dbs)
  show ?case
    by (simp add: Cons.IH dict_set_map_of map_add_def split: option.split)
qed

lemma docs_mapping_keys: "fst ` set (docs_mapping dbs docs) = source_type ` set dbs"
  by (simp add: docs_mapping_def foldl_dict_set_keys)

lemma docs_mapping_distinct: "distinct (map fst (docs_mapping dbs docs))"
  by (simp add: docs_mapping_def foldl_dict_set_distinct)

lemma docs_mapping_last_wins:
  "map_of (docs_mapping dbs docs) key
     = map_of (rev (map (\<lambda>db. (source_type db, docs db)) dbs)) key"
  by (simp add: docs_mapping_def foldl_dict_set_map_of)

lemma docs_mapping_own:
  assumes "distinct (map source_type dbs)" "db \<in> set dbs"
  shows "map_of (docs_mapping dbs docs) (source_type db) = Some (docs db)"
proof -
  have "distinct (map fst (rev (map (\<lambda>db. (source_type db, docs db)) dbs)))"
    using assms(1) by (simp add: rev_map[symmetric] comp_def)
  moreover have "(source_type db, docs db) \<in> set (rev (map (\<lambda>db. (source_type db, docs db)) dbs))"
    using assms(2) by auto
  ultimately show ?thesis
    by (simp add: docs_mapping_last_wins)
qed

section \<open>The stubs at work\<close>

lemma stub_select_str:
  "select_output_parser stub_framework (balanced_prompt_template ''Deutsch'') ''str''
     = Inr (StrOutputParser, deutsch_prompt)"
  by (simp add: select_output_parser_def from_template_def balanced_vars deutsch_prompt_def)

lemma stub_balanced_fill:
  assumes "map_of d ''question'' = Some (PyStr q)" "map_of d ''context'' = Some (PyStr c)"
  shows "format_prompt (py_repr stub_framework) deutsch_prompt
           (PyDict d) = Inr (balanced_prompt_filled ''Deutsch'' c q)"
  using balanced_prompt_fill[OF stub_select_str _ _ assms, of "py_repr stub_framework"]
  by (simp add: format_suffix_def py_str_def)

lemma stub_db_returns:
  "returns (build_context (stub_db source text documents) x k) text"
  "returns (get_documents_for_each_party (stub_db source text documents) x k) documents"
  by (simp_all add: returns_def stub_db_def)

lemma stub_db_text_docs:
  "stub_text (stub_db source text documents) = text"
  "stub_docs (stub_db source text documents) = documents"
  "source_type (stub_db source text documents) = source"
  by (simp_all add: stub_text_def stub_docs_def stub_db_def)

lemma stub_llm_returns: "returns (llm_or_default stub_framework (Some stub_llm) t p) stub_payload"
  by (simp add: returns_def llm_or_default_def stub_llm_def)

lemma three_dbs_returns:
  "\<forall>db\<in>set three_dbs. returns (build_context db stub_question 5) (stub_text db)"
  "\<forall>db\<in>set three_dbs. returns (get_documents_for_each_party db stub_question 5) (stub_docs db)"
  by (simp_all add: three_dbs_def stub_db_returns stub_db_text_docs)

lemma three_dbs_join: "join ''\<newline>\<newline>'' (map stub_text three_dbs) = ''A\<newline>\<newline>B\<newline>\<newline>C''"
  by (simp add: three_dbs_def stub_db_text_docs)

section \<open>Outcomes that do not depend on the run state\<close>

lemma stateless_ereturn: "stateless (ereturn a)"
  by (simp add: stateless_def ereturn_def)

lemma stateless_ethrow: "stateless (ethrow e)"
  by (simp add: stateless_def ethrow_def)

lemma stateless_lift: "stateless (lift r)"
  by (simp add: stateless_def lift_def)

lemma stateless_perform: "deterministic f \<Longrightarrow> stateless (perform c f)"
  unfolding stateless_def deterministic_def perform_fst by blast

lemma stateless_ebind:
  assumes "stateless m" and "\<And>a. stateless (f a)"
  shows "stateless (ebind m f)"
  unfolding stateless_def
proof (intro allI)
  fix s s'
  have m: "fst (m s) = fst (m s')" using assms(1) by (simp add: stateless_def)
  show "fst (ebind m f s) = fst (ebind m f s')"
  proof (cases "fst (m s')")
    case (Inl e)
    then show ?thesis using m by (simp add: ebind_run)
  next
    case (Inr a)
    have "fst (f a (snd (m s))) = fst (f a (snd (m s')))"
      using assms(2)[of a] by (simp add: stateless_def)
    then show ?thesis using m Inr by (simp add: ebind_run)
  qed
qed

lemma stateless_pipe:
  assumes "stateless (r1 x)" and "\<And>y. stateless (r2 y)"
  shows "stateless (pipe r1 r2 x)"
  using assms by (simp add: pipe_def stateless_ebind)

lemma stateless_parallel_steps:
  assumes "\<And>key r. (key, r) \<in> set steps \<Longrightarrow> stateless (r x)"
  shows "stateless (parallel_steps steps x)"
  using assms
proof (induction steps)
  case Nil
  show ?case by (simp add: stateless_ereturn)
next
  case (Cons step steps)
  obtain key r where step: "step = (key, r)" by (cases step)
  have "stateless (r x)" using Cons.prems[of key r] step by simp
  moreover have "stateless (parallel_steps steps x)"
  proof (rule Cons.IH)
    fix key' r'
    assume "(key', r') \<in> set steps"
    then show "stateless (r' x)" using Cons.prems[of key' r'] by simp
  qed
  ultimately show ?case
    by (simp add: step stateless_ebind stateless_ereturn)
qed

lemma stateless_RunnableParallel:
  assumes "\<And>key r. (key, r) \<in> set steps \<Longrightarrow> stateless (r x)"
  shows "stateless (RunnableParallel steps x)"
  using stateless_parallel_steps[of steps x] assms
  by (simp add: RunnableParallel_def stateless_ebind stateless_ereturn)

lemma stateless_assign:
  assumes "\<And>y. stateless (r y)"
  shows "stateless (assign key r x)"
  using assms by (cases x) (simp_all add: assign_def stateless_ebind stateless_ereturn stateless_ethrow)

lemma stateless_build_contexts:
  assumes "\<And>db q. db \<in> set dbs \<Longrightarrow> deterministic (build_context db q k)"
  shows "stateless (build_contexts dbs k x)"
  using assms
proof (induction dbs)
  case Nil
  show ?case by (simp add: stateless_ereturn)
next
  case (Cons db dbs)
  have "stateless (build_contexts dbs k x)" using Cons by simp
  moreover have "\<And>q. stateless (perform (BuildContext (source_type db) q k) (build_context db q k))"
    using Cons.prems by (simp add: stateless_perform)
  ultimately show ?case
    by (simp add: stateless_ebind stateless_ereturn stateless_lift)
qed

lemma stateless_party_documents:
  assumes "\<And>db q. db \<in> set dbs \<Longrightarrow> deterministic (get_documents_for_each_party db q k)"
  shows "stateless (party_documents dbs k acc x)"
  using assms
proof (induction dbs arbitrary: acc)
  case Nil
  show ?case by (simp add: stateless_ereturn)
next
  case (Cons db dbs)
  have "\<And>acc. stateless (party_documents dbs k acc x)" using Cons by simp
  moreover have "\<And>q. stateless (perform (GetDocuments (source_type db) q k)
      (get_documents_for_each_party db q k))"
    using Cons.prems by (simp add: stateless_perform)
  ultimately show ?case
    by (simp add: stateless_ebind stateless_ereturn stateless_lift)
qed

lemma stateless_joined_context:
  assumes "\<And>db q. db \<in> set dbs \<Longrightarrow> deterministic (build_context db q k)"
  shows "stateless (joined_context dbs k x)"
  using stateless_build_contexts[of dbs k x] assms
  by (simp add: joined_context_def stateless_ebind stateless_ereturn)

lemma stateless_docs_by_source:
  assumes "\<And>db q. db \<in> set dbs \<Longrightarrow> deterministic (get_documents_for_each_party db q k)"
  shows "stateless (docs_by_source dbs k x)"
  using stateless_party_documents[of dbs k "[]" x] assms
  by (simp add: docs_by_source_def stateless_ebind stateless_ereturn)

lemma stateless_single_chain:
  assumes build: "generate_chain fw retriever llm op verbose temperature = Inr chain"
    and retr: "\<And>x. deterministic (retriever x)"
    and model: "\<And>p. deterministic (llm_or_default fw llm temperature p)"
  shows "stateless (chain x)"
proof -
  obtain p qp where sel: "select_output_parser fw single_prompt_template op = Inr (p, qp)"
    using build by (auto simp: generate_chain_def Let_def split: sum.splits)
  have r: "\<And>y. stateless (retriever_invoke retriever y)"
    using retr by (simp add: retriever_invoke_def stateless_perform)
  have m: "\<And>y. stateless (llm_invoke (llm_or_default fw llm temperature) y)"
    using model by (simp add: llm_invoke_def stateless_perform)
  have pr: "\<And>y. stateless (prompt_invoke fw qp y)"
    and pa: "\<And>q y. stateless (parser_invoke fw q y)"
    and pt: "\<And>y. stateless (RunnablePassthrough y)"
    by (simp_all add: prompt_invoke_def parser_invoke_def RunnablePassthrough_def
        stateless_lift stateless_ereturn)
  have par: "\<And>y. stateless (RunnableParallel
       [(''context'', retriever_invoke retriever), (''question'', RunnablePassthrough)] y)"
    by (rule stateless_RunnableParallel) (auto simp: r pt)
  show ?thesis
  proof (cases verbose)
    case True
    then have "chain = pipe (RunnableParallel
                  [(''context'', retriever_invoke retriever), (''question'', RunnablePassthrough)])
               (assign ''answer''
                  (pipe (pipe (pipe (assign ''context'' (\<lambda>x. lift (getitem x ''context'')))
                                    (prompt_invoke fw qp))
                              (llm_invoke (llm_or_default fw llm temperature)))
                        (parser_invoke fw StrOutputParser)))"
      using build generate_chain_verbose[OF sel, of retriever llm temperature] by simp
    then show ?thesis
      by (simp add: stateless_pipe stateless_assign stateless_lift par pr m pa)
  next
    case False
    then have "chain = pipe (pipe (pipe (RunnableParallel
                              [(''context'', retriever_invoke retriever),
                               (''question'', RunnablePassthrough)])
                           (prompt_invoke fw qp))
                     (llm_invoke (llm_or_default fw llm temperature)))
               (parser_invoke fw p)"
      using build generate_chain_plain[OF sel, of retriever llm temperature] by simp
    then show ?thesis
      by (simp add: stateless_pipe par pr m pa)
  qed
qed

lemma stateless_balanced_chain:
  assumes build: "generate_chain_with_balanced_retrieval fw dbs llm op temperature k
                    return_context language = Inr chain"
    and ctx: "\<And>db q. db \<in> set dbs \<Longrightarrow> deterministic (build_context db q k)"
    and docs: "\<And>db q. db \<in> set dbs \<Longrightarrow> deterministic (get_documents_for_each_party db q k)"
    and model: "\<And>p. deterministic (llm_or_default fw llm temperature p)"
  shows "stateless (chain x)"
proof -
  obtain p qp where sel: "select_output_parser fw (balanced_prompt_template language) op
      = Inr (p, qp)"
    using build
    by (auto simp: generate_chain_with_balanced_retrieval_def Let_def split: sum.splits)
  have m: "\<And>y. stateless (llm_invoke (llm_or_default fw llm temperature) y)"
    using model by (simp add: llm_invoke_def stateless_perform)
  have pr: "\<And>y. stateless (prompt_invoke fw qp y)"
    and pa: "\<And>q y. stateless (parser_invoke fw q y)"
    and pt: "\<And>y. stateless (RunnablePassthrough y)"
    and gi: "\<And>y :: pyval. stateless (lift (getitem y ''question''))"
    by (simp_all add: prompt_invoke_def parser_invoke_def RunnablePassthrough_def
        stateless_lift stateless_ereturn)
  have jc: "\<And>y. stateless (joined_context dbs k y)"
    using ctx by (simp add: stateless_joined_context)
  have ds: "\<And>y. stateless (docs_by_source dbs k y)"
    using docs by (simp add: stateless_docs_by_source)
  have wrap: "\<And>y. stateless (RunnableParallel [(''question'', RunnablePassthrough)] y)"
    by (rule stateless_RunnableParallel) (auto simp: pt)
  have par3: "\<And>y. stateless (RunnableParallel
        [(''question'', (\<lambda>x. lift (getitem x ''question''))),
         (''context'', joined_context dbs k), (''docs'', docs_by_source dbs k)] y)"
    by (rule stateless_RunnableParallel) (auto simp: gi jc ds)
  have par2: "\<And>y. stateless (RunnableParallel
        [(''question'', (\<lambda>x. lift (getitem x ''question''))),
         (''context'', joined_context dbs k)] y)"
    by (rule stateless_RunnableParallel) (auto simp: gi jc)
  show ?thesis
  proof (cases return_context)
    case True
    then have "chain = pipe (RunnableParallel [(''question'', RunnablePassthrough)])
               (pipe (RunnableParallel
                        [(''question'', (\<lambda>x. lift (getitem x ''question''))),
                         (''context'', joined_context dbs k),
                         (''docs'', docs_by_source dbs k)])
                     (assign ''answer''
                        (pipe (pipe (pipe RunnablePassthrough (prompt_invoke fw qp))
                                    (llm_invoke (llm_or_default fw llm temperature)))
                              (parser_invoke fw p))))"
      using build balanced_with_context[OF sel, of dbs llm temperature k] by simp
    then show ?thesis
      by (simp add: stateless_pipe stateless_assign wrap par3 pt pr m pa)
  next
    case False
    then have chain: "chain = RunnableParallel
            [(''question'', RunnablePassthrough),
             (''answer'',
              pipe (pipe (pipe (pipe (RunnableParallel [(''question'', RunnablePassthrough)])
                                     (RunnableParallel
                                        [(''question'', (\<lambda>x. lift (getitem x ''question''))),
                                         (''context'', joined_context dbs k)]))
                               (prompt_invoke fw qp))
                         (llm_invoke (llm_or_default fw llm temperature)))
                   (parser_invoke fw p))]"
      using build balanced_without_context[OF sel, of dbs llm temperature k] by simp
    have "stateless (pipe (pipe (pipe (pipe (RunnableParallel [(''question'', RunnablePassthrough)])
                                     (RunnableParallel
                                        [(''question'', (\<lambda>x. lift (getitem x ''question''))),
                                         (''context'', joined_context dbs k)]))
                               (prompt_invoke fw qp))
                         (llm_invoke (llm_or_default fw llm temperature)))
                   (parser_invoke fw p) x)"
      by (simp add: stateless_pipe wrap par2 pr m pa)
    then show ?thesis
      unfolding chain by (intro stateless_RunnableParallel) (auto simp: pt)
  qed
qed

section \<open>Building a pipeline\<close>





text \<open>
  C9. With a model supplied by the caller, the temperature does not reach the
  pipeline: two builds that differ only in the temperature give the same pipeline,
  hence the same outcome and the same calls on every input and from every world.
\<close>

theorem temperature_ignored_when_llm_supplied:
  "generate_chain fw retriever (Some m) output_parser verbose t1
     = generate_chain fw retriever (Some m) output_parser verbose t2
   \<and> generate_chain_with_balanced_retrieval fw dbs (Some m) output_parser t1 k return_context
       language
     = generate_chain_with_balanced_retrieval fw dbs (Some m) output_parser t2 k return_context
       language"
  by (simp add: generate_chain_def generate_chain_with_balanced_retrieval_def llm_or_default_def)

section \<open>The single-retriever chain\<close>

text \<open>
  C5. The chain built with \<open>verbose = True\<close>, invoked on an input \<open>x\<close> with a retriever
  that returns \<open>ctx\<close> for \<open>x\<close> and a model that answers the filled prompt, returns a
  mapping whose \<open>question\<close> entry is \<open>x\<close> itself and whose \<open>context\<close> entry is \<open>ctx\<close>.
\<close>

theorem verbose_result_keeps_question_and_context:
  assumes "output_parser = ''json'' \<or> output_parser = ''str''"
    and "returns (retriever x) ctx"
    and "returns (llm_or_default fw llm temperature
           (single_prompt_filled (py_str (py_repr fw) x) (py_str (py_repr fw) ctx)
              @ format_suffix fw output_parser)) raw"
  shows "\<exists>chain res. generate_chain fw retriever llm output_parser True temperature = Inr chain
           \<and> fst (invoke chain x w) = Inr res
           \<and> getitem res ''question'' = Inr x \<and> getitem res ''context'' = Inr ctx"
proof -
  obtain p qp where sel: "select_output_parser fw single_prompt_template output_parser = Inr (p, qp)"
    using select_total_single[OF assms(1)] by blast
  obtain chain where build: "generate_chain fw retriever llm output_parser True temperature = Inr chain"
    using generate_chain_verbose[OF sel] by blast
  have "fst (invoke chain x w)
      = Inr (PyDict [(''context'', ctx), (''question'', x), (''answer'', PyStr raw)])"
    by (rule verbose_run(1)[OF sel assms(2) assms(3) build])
  then show ?thesis using build by (simp add: getitem_def)
qed

theorem verbose_result_keeps_question_and_context_witness:
  "(''str'' = ''json'' \<or> ''str'' = ''str'')
   \<and> returns (stub_retriever stub_question) stub_documents
   \<and> (\<exists>chain res. generate_chain stub_framework stub_retriever (Some stub_llm) ''str'' True 0
                      = Inr chain
         \<and> fst (invoke chain stub_question 0) = Inr res
         \<and> getitem res ''question'' = Inr stub_question
         \<and> getitem res ''context'' = Inr stub_documents)"
proof -
  have r: "returns (stub_retriever stub_question) stub_documents"
    by (simp add: returns_def stub_retriever_def)
  have m: "returns (llm_or_default stub_framework (Some stub_llm) (0::int)
           (single_prompt_filled (py_str (py_repr stub_framework) stub_question)
                (py_str (py_repr stub_framework) stub_documents)
              @ format_suffix stub_framework ''str'')) stub_payload"
    by (simp add: returns_def llm_or_default_def stub_llm_def)
  show ?thesis
    using r m verbose_result_keeps_question_and_context
      [where output_parser = "''str''" and retriever = stub_retriever and x = stub_question
         and ctx = stub_documents and fw = stub_framework and llm = "Some stub_llm"
         and temperature = 0 and raw = stub_payload and w = 0]
    by simp
qed

text \<open>
  C6. The chain built with \<open>verbose = False\<close> and \<open>output_parser = str\<close>, invoked on \<open>x\<close>:
  the retriever is called on \<open>x\<close>, the model is called once, on the template filled with
  \<open>x\<close> and the retrieved context, and the outcome is the model's raw text, unwrapped.
\<close>

theorem plain_str_chain_returns_raw_model_output:
  assumes "returns (retriever x) ctx"
    and "returns (llm_or_default fw llm temperature
           (single_prompt_filled (py_str (py_repr fw) x) (py_str (py_repr fw) ctx))) raw"
  shows "\<exists>chain. generate_chain fw retriever llm ''str'' False temperature = Inr chain
           \<and> fst (invoke chain x w) = Inr (PyStr raw)
           \<and> calls (snd (invoke chain x w))
               = [Retrieve x,
                  ModelCall (single_prompt_filled (py_str (py_repr fw) x)
                               (py_str (py_repr fw) ctx))]"
proof -
  obtain p qp where sel: "select_output_parser fw single_prompt_template ''str'' = Inr (p, qp)"
    using select_total_single[of "''str''"] by blast
  have p: "p = StrOutputParser" using select_cases[OF sel] by simp
  obtain chain where build: "generate_chain fw retriever llm ''str'' False temperature = Inr chain"
    using generate_chain_plain[OF sel] by blast
  have m: "returns (llm_or_default fw llm temperature
        (single_prompt_filled (py_str (py_repr fw) x) (py_str (py_repr fw) ctx)
           @ format_suffix fw ''str'')) raw"
    using assms(2) by (simp add: format_suffix_def)
  note run = plain_run[OF sel assms(1) m build, of w]
  show ?thesis using build run by (simp add: p parse_output_def format_suffix_def)
qed

theorem plain_str_chain_returns_raw_model_output_witness:
  "returns (stub_retriever stub_question) stub_documents
   \<and> (\<exists>chain. generate_chain stub_framework stub_retriever (Some stub_llm) ''str'' False 0
                 = Inr chain
         \<and> fst (invoke chain stub_question 0) = Inr (PyStr stub_payload)
         \<and> calls (snd (invoke chain stub_question 0))
             = [Retrieve stub_question,
                ModelCall (single_prompt_filled
                             ''Was ist die Position der SPD zur Solarenergie?'' ''<object>'')])"
proof -
  have r: "returns (stub_retriever stub_question) stub_documents"
    by (simp add: returns_def stub_retriever_def)
  have m: "returns (llm_or_default stub_framework (Some stub_llm) (0::int)
           (single_prompt_filled (py_str (py_repr stub_framework) stub_question)
                (py_str (py_repr stub_framework) stub_documents))) stub_payload"
    by (simp add: returns_def llm_or_default_def stub_llm_def)
  have s: "py_str (py_repr stub_framework) stub_question
             = ''Was ist die Position der SPD zur Solarenergie?''"
    "py_str (py_repr stub_framework) stub_documents = ''<object>''"
    by (simp_all add: py_str_def stub_question_def stub_documents_def stub_framework_def)
  show ?thesis
    using r m plain_str_chain_returns_raw_model_output
      [where retriever = stub_retriever and x = stub_question and ctx = stub_documents
         and fw = stub_framework and llm = "Some stub_llm" and temperature = 0
         and raw = stub_payload and w = 0]
    by (simp add: s)
qed

section \<open>The balanced-retrieval chain\<close>

text \<open>
  C2. The balanced chain, invoked on \<open>x\<close> with databases that return the texts
  \<open>context_text db\<close>: \<open>build_context\<close> is called with \<open>x\<close> and \<open>k\<close> on every database, in the order
  of the list, and the model is then called on the prompt filled from the mapping
  whose \<open>context\<close> entry is these texts joined by a blank line, in list order. When the
  context is returned, the calls of \<open>get_documents_for_each_party\<close> come in between.
\<close>

theorem balanced_chain_joins_contexts_in_list_order:
  assumes "select_output_parser fw (balanced_prompt_template language) output_parser
             = Inr (parser, question_prompt)"
    and "\<forall>db\<in>set dbs. returns (build_context db x k) (context_text db)"
    and "return_context \<longrightarrow>
           (\<forall>db\<in>set dbs. returns (get_documents_for_each_party db x k) (docs db))"
    and "format_prompt (py_repr fw) question_prompt
           (PyDict (prompt_input return_context x (join ''\<newline>\<newline>'' (map context_text dbs))
                      (docs_mapping dbs docs))) = Inr prompt"
    and "returns (llm_or_default fw llm temperature prompt) raw"
  shows "\<exists>chain. generate_chain_with_balanced_retrieval fw dbs llm output_parser temperature k
                    return_context language = Inr chain
           \<and> calls (snd (invoke chain x w))
               = map (\<lambda>db. BuildContext (source_type db) x k) dbs
                 @ (if return_context then map (\<lambda>db. GetDocuments (source_type db) x k) dbs
                    else [])
                 @ [ModelCall prompt]"
proof (cases return_context)
  case True
  obtain chain where build: "generate_chain_with_balanced_retrieval fw dbs llm output_parser
      temperature k True language = Inr chain"
    using balanced_with_context[OF assms(1)] by blast
  have docs: "\<forall>db\<in>set dbs. returns (get_documents_for_each_party db x k) (docs db)"
    using assms(3) True by simp
  have fill: "format_prompt (py_repr fw) question_prompt
      (PyDict (prompt_input True x (join ''\<newline>\<newline>'' (map context_text dbs))
                 (docs_mapping dbs docs))) = Inr prompt"
    using assms(4) True by simp
  show ?thesis
    using True build
      balanced_run_with_context(2)[OF assms(1) assms(2) docs fill assms(5) build]
    by simp
next
  case False
  obtain chain where build: "generate_chain_with_balanced_retrieval fw dbs llm output_parser
      temperature k False language = Inr chain"
    using balanced_without_context[OF assms(1)] by blast
  have fill: "format_prompt (py_repr fw) question_prompt
      (PyDict (prompt_input False x (join ''\<newline>\<newline>'' (map context_text dbs))
                 (docs_mapping dbs docs))) = Inr prompt"
    using assms(4) False by simp
  show ?thesis
    using False build
      balanced_run_without_context(2)[OF assms(1) assms(2) fill assms(5) build]
    by simp
qed

theorem balanced_chain_joins_contexts_in_list_order_witness:
  "select_output_parser stub_framework (balanced_prompt_template ''Deutsch'') ''str''
     = Inr (StrOutputParser, deutsch_prompt)
   \<and> map stub_text three_dbs = [''A'', ''B'', ''C'']
   \<and> join ''\<newline>\<newline>'' (map stub_text three_dbs) = ''A\<newline>\<newline>B\<newline>\<newline>C''
   \<and> (\<exists>chain. generate_chain_with_balanced_retrieval stub_framework three_dbs (Some stub_llm)
                 ''str'' 0 5 False ''Deutsch'' = Inr chain
         \<and> calls (snd (invoke chain stub_question 0))
             = [BuildContext ''debates'' stub_question 5,
                BuildContext ''manifestos'' stub_question 5,
                BuildContext ''press'' stub_question 5,
                ModelCall (balanced_prompt_filled ''Deutsch'' ''A\<newline>\<newline>B\<newline>\<newline>C''
                             ''Was ist die Position der SPD zur Solarenergie?'')])"
proof -
  have docs: "False \<longrightarrow>
      (\<forall>db\<in>set three_dbs. returns (get_documents_for_each_party db stub_question 5) (stub_docs db))"
    by simp
  have fill: "format_prompt (py_repr stub_framework)
      deutsch_prompt
      (PyDict (prompt_input False stub_question (join ''\<newline>\<newline>'' (map stub_text three_dbs))
                 (docs_mapping three_dbs stub_docs)))
      = Inr (balanced_prompt_filled ''Deutsch'' ''A\<newline>\<newline>B\<newline>\<newline>C''
               ''Was ist die Position der SPD zur Solarenergie?'')"
    by (rule stub_balanced_fill) (simp_all add: prompt_input_def stub_question_def three_dbs_join)
  note inst = balanced_chain_joins_contexts_in_list_order
    [where fw = stub_framework and language = "''Deutsch''" and output_parser = "''str''"
       and parser = StrOutputParser
       and question_prompt = deutsch_prompt
       and dbs = three_dbs and x = stub_question and k = 5 and context_text = stub_text
       and return_context = False and docs = stub_docs and llm = "Some stub_llm"
       and temperature = 0 and raw = stub_payload and w = 0,
     OF stub_select_str three_dbs_returns(1) docs fill stub_llm_returns]
  have "map stub_text three_dbs = [''A'', ''B'', ''C'']"
    by (simp add: three_dbs_def stub_db_text_docs)
  moreover have "map (\<lambda>db. BuildContext (source_type db) stub_question 5) three_dbs
      = [BuildContext ''debates'' stub_question 5, BuildContext ''manifestos'' stub_question 5,
         BuildContext ''press'' stub_question 5]"
    by (simp add: three_dbs_def stub_db_text_docs)
  ultimately show ?thesis
    using inst stub_select_str three_dbs_join by simp
qed

text \<open>
  C10. An empty database list is accepted: the build succeeds, no database is
  called, the prompt is filled from a mapping whose \<open>context\<close> entry is the empty
  string, and with \<open>return_context\<close> the result carries that empty context and an
  empty \<open>docs\<close> mapping.
\<close>

theorem empty_database_list_is_accepted:
  assumes "select_output_parser fw (balanced_prompt_template language) output_parser
             = Inr (parser, question_prompt)"
    and "format_prompt (py_repr fw) question_prompt
           (PyDict (prompt_input return_context x '''' [])) = Inr prompt"
    and "returns (llm_or_default fw llm temperature prompt) raw"
    and "parse_output fw parser raw = Inr answer"
  shows "\<exists>chain. generate_chain_with_balanced_retrieval fw [] llm output_parser temperature k
                    return_context language = Inr chain
           \<and> calls (snd (invoke chain x w)) = [ModelCall prompt]
           \<and> fst (invoke chain x w)
               = Inr (PyDict (if return_context
                              then [(''question'', x), (''context'', PyStr ''''),
                                    (''docs'', PyDict []), (''answer'', answer)]
                              else [(''question'', x), (''answer'', answer)]))"
proof (cases return_context)
  case True
  obtain chain where build: "generate_chain_with_balanced_retrieval fw [] llm output_parser
      temperature k True language = Inr chain"
    using balanced_with_context[OF assms(1)] by blast
  have fill: "format_prompt (py_repr fw) question_prompt
      (PyDict (prompt_input True x (join ''\<newline>\<newline>'' (map (\<lambda>db. []) ([] :: 'a database list)))
                 (docs_mapping [] (\<lambda>db. PyNone)))) = Inr prompt"
    using assms(2) True by (simp add: docs_mapping_def)
  note run = balanced_run_with_context[OF assms(1) _ _ fill assms(3) build, of w]
  show ?thesis using True build run assms(4) by (simp add: docs_mapping_def)
next
  case False
  obtain chain where build: "generate_chain_with_balanced_retrieval fw [] llm output_parser
      temperature k False language = Inr chain"
    using balanced_without_context[OF assms(1)] by blast
  have fill: "format_prompt (py_repr fw) question_prompt
      (PyDict (prompt_input False x (join ''\<newline>\<newline>'' (map (\<lambda>db. []) ([] :: 'a database list)))
                 [])) = Inr prompt"
    using assms(2) False by simp
  note run = balanced_run_without_context[OF assms(1) _ fill assms(3) build, of w]
  show ?thesis using False build run assms(4) by simp
qed

theorem empty_database_list_is_accepted_witness:
  "select_output_parser stub_framework (balanced_prompt_template ''Deutsch'') ''str''
     = Inr (StrOutputParser, deutsch_prompt)
   \<and> parse_output stub_framework StrOutputParser stub_payload = Inr (PyStr stub_payload)
   \<and> (\<exists>chain. generate_chain_with_balanced_retrieval stub_framework [] (Some stub_llm)
                 ''str'' 0 5 True ''Deutsch'' = Inr chain
         \<and> calls (snd (invoke chain stub_question 0))
             = [ModelCall (balanced_prompt_filled ''Deutsch'' ''''
                             ''Was ist die Position der SPD zur Solarenergie?'')]
         \<and> fst (invoke chain stub_question 0)
             = Inr (PyDict [(''question'', stub_question), (''context'', PyStr ''''),
                            (''docs'', PyDict []), (''answer'', PyStr stub_payload)]))"
proof -
  have fill: "format_prompt (py_repr stub_framework)
      deutsch_prompt
      (PyDict (prompt_input True stub_question '''' []))
      = Inr (balanced_prompt_filled ''Deutsch'' ''''
               ''Was ist die Position der SPD zur Solarenergie?'')"
    by (rule stub_balanced_fill) (simp_all add: prompt_input_def stub_question_def)
  have parse: "parse_output stub_framework StrOutputParser stub_payload = Inr (PyStr stub_payload)"
    by (simp add: parse_output_def)
  note inst = empty_database_list_is_accepted
    [where fw = stub_framework and language = "''Deutsch''" and output_parser = "''str''"
       and parser = StrOutputParser
       and question_prompt = deutsch_prompt
       and x = stub_question and k = 5 and return_context = True and llm = "Some stub_llm"
       and temperature = 0 and raw = stub_payload and w = 0 and answer = "PyStr stub_payload",
     OF stub_select_str fill stub_llm_returns parse]
  show ?thesis using inst stub_select_str parse by simp
qed

text \<open>
  C4, as the code has it. With \<open>return_context\<close>, the \<open>docs\<close> entry of the result is a
  mapping whose keys are exactly the source types of the databases, each once; the
  value under a source type is the answer of the last database of the list that has
  it. When the source types of the list are pairwise distinct, every database finds
  its own answer under its source type.
\<close>

theorem docs_keyed_by_source_type_last_database_wins:
  assumes "select_output_parser fw (balanced_prompt_template language) output_parser
             = Inr (parser, question_prompt)"
    and "\<forall>db\<in>set dbs. returns (build_context db x k) (context_text db)"
    and "\<forall>db\<in>set dbs. returns (get_documents_for_each_party db x k) (docs db)"
    and "format_prompt (py_repr fw) question_prompt
           (PyDict (prompt_input True x (join ''\<newline>\<newline>'' (map context_text dbs))
                      (docs_mapping dbs docs))) = Inr prompt"
    and "returns (llm_or_default fw llm temperature prompt) raw"
    and "parse_output fw parser raw = Inr answer"
  shows "\<exists>chain res d.
           generate_chain_with_balanced_retrieval fw dbs llm output_parser temperature k True
             language = Inr chain
           \<and> fst (invoke chain x w) = Inr res
           \<and> getitem res ''docs'' = Inr (PyDict d)
           \<and> distinct (map fst d)
           \<and> fst ` set d = source_type ` set dbs
           \<and> (\<forall>key. map_of d key = map_of (rev (map (\<lambda>db. (source_type db, docs db)) dbs)) key)
           \<and> (distinct (map source_type dbs) \<longrightarrow>
                (\<forall>db\<in>set dbs. map_of d (source_type db) = Some (docs db)))"
proof -
  obtain chain where build: "generate_chain_with_balanced_retrieval fw dbs llm output_parser
      temperature k True language = Inr chain"
    using balanced_with_context[OF assms(1)] by blast
  have run: "fst (invoke chain x w) =
      Inr (PyDict [(''question'', x),
                   (''context'', PyStr (join ''\<newline>\<newline>'' (map context_text dbs))),
                   (''docs'', PyDict (docs_mapping dbs docs)),
                   (''answer'', answer)])"
    using balanced_run_with_context(1)[OF assms(1-5) build, of w] assms(6) by simp
  let ?d = "docs_mapping dbs docs"
  let ?res = "PyDict [(''question'', x),
                   (''context'', PyStr (join ''\<newline>\<newline>'' (map context_text dbs))),
                   (''docs'', PyDict ?d),
                   (''answer'', answer)]"
  have get: "getitem ?res ''docs'' = Inr (PyDict ?d)"
    by (simp add: getitem_def)
  have last: "\<forall>key. map_of ?d key = map_of (rev (map (\<lambda>db. (source_type db, docs db)) dbs)) key"
    by (simp add: docs_mapping_last_wins)
  have own: "distinct (map source_type dbs) \<longrightarrow>
      (\<forall>db\<in>set dbs. map_of ?d (source_type db) = Some (docs db))"
    by (simp add: docs_mapping_own)
  show ?thesis
    by (rule exI[of _ chain], rule exI[of _ ?res], rule exI[of _ ?d])
       (intro conjI build run get docs_mapping_distinct docs_mapping_keys last own)
qed

theorem docs_keyed_by_source_type_last_database_wins_witness:
  "distinct (map source_type three_dbs)
   \<and> (\<exists>chain res d.
         generate_chain_with_balanced_retrieval stub_framework three_dbs (Some stub_llm) ''str''
           0 5 True ''Deutsch'' = Inr chain
         \<and> fst (invoke chain stub_question 0) = Inr res
         \<and> getitem res ''docs'' = Inr (PyDict d)
         \<and> distinct (map fst d)
         \<and> fst ` set d = {''debates'', ''manifestos'', ''press''}
         \<and> map (\<lambda>db. map_of d (source_type db)) three_dbs
             = map (\<lambda>db. Some (stub_docs db)) three_dbs)"
proof -
  have fill: "format_prompt (py_repr stub_framework)
      deutsch_prompt
      (PyDict (prompt_input True stub_question (join ''\<newline>\<newline>'' (map stub_text three_dbs))
                 (docs_mapping three_dbs stub_docs)))
      = Inr (balanced_prompt_filled ''Deutsch'' ''A\<newline>\<newline>B\<newline>\<newline>C''
               ''Was ist die Position der SPD zur Solarenergie?'')"
    by (rule stub_balanced_fill) (simp_all add: prompt_input_def stub_question_def three_dbs_join)
  have parse: "parse_output stub_framework StrOutputParser stub_payload = Inr (PyStr stub_payload)"
    by (simp add: parse_output_def)
  note inst = docs_keyed_by_source_type_last_database_wins
    [where fw = stub_framework and language = "''Deutsch''" and output_parser = "''str''"
       and parser = StrOutputParser
       and question_prompt = deutsch_prompt
       and dbs = three_dbs and x = stub_question and k = 5 and context_text = stub_text
       and docs = stub_docs and llm = "Some stub_llm"
       and temperature = 0 and raw = stub_payload and w = 0 and answer = "PyStr stub_payload",
     OF stub_select_str three_dbs_returns(1) three_dbs_returns(2) fill stub_llm_returns parse]
  have dist: "distinct (map source_type three_dbs)"
    and src: "source_type ` set three_dbs = {''debates'', ''manifestos'', ''press''}"
    by (simp_all add: three_dbs_def stub_db_text_docs)
  from inst obtain chain res d where
    1: "generate_chain_with_balanced_retrieval stub_framework three_dbs (Some stub_llm) ''str''
           0 5 True ''Deutsch'' = Inr chain"
    and 2: "fst (invoke chain stub_question 0) = Inr res"
    and 3: "getitem res ''docs'' = Inr (PyDict d)"
    and 4: "distinct (map fst d)"
    and 5: "fst ` set d = source_type ` set three_dbs"
    and 6: "distinct (map source_type three_dbs) \<longrightarrow>
             (\<forall>db\<in>set three_dbs. map_of d (source_type db) = Some (stub_docs db))"
    by blast
  have "\<forall>db\<in>set three_dbs. map_of d (source_type db) = Some (stub_docs db)"
    using 6 dist by (rule mp)
  then have 7: "map (\<lambda>db. map_of d (source_type db)) three_dbs
      = map (\<lambda>db. Some (stub_docs db)) three_dbs"
    by simp
  have "\<exists>chain res d.
         generate_chain_with_balanced_retrieval stub_framework three_dbs (Some stub_llm) ''str''
           0 5 True ''Deutsch'' = Inr chain
         \<and> fst (invoke chain stub_question 0) = Inr res
         \<and> getitem res ''docs'' = Inr (PyDict d)
         \<and> distinct (map fst d)
         \<and> fst ` set d = {''debates'', ''manifestos'', ''press''}
         \<and> map (\<lambda>db. map_of d (source_type db)) three_dbs
             = map (\<lambda>db. Some (stub_docs db)) three_dbs"
    by (rule exI[of _ chain], rule exI[of _ res], rule exI[of _ d])
       (intro conjI 1 2 3 4 5[unfolded src] 7)
  then show ?thesis
    using dist by (intro conjI)
qed

text \<open>
  C4, as the claim has it, fails on two databases of one source type: the \<open>docs\<close>
  mapping has one entry for that source type, holding the documents of the second
  database, so the value under the first database's source type is not what the
  first database returned.
\<close>

theorem docs_of_first_database_lost_counterexample:
  "run_chain (generate_chain_with_balanced_retrieval stub_framework
                [first_manifesto_db, second_manifesto_db] (Some stub_llm) ''str'' 0 5 True
                ''Deutsch'') stub_question 0
     = Inr (PyDict [(''question'', stub_question),
                    (''context'', PyStr ''A\<newline>\<newline>B''),
                    (''docs'', PyDict [(''manifestos'', PyDict [(''spd'', PyList [PyStr ''second''])])]),
                    (''answer'', PyStr stub_payload)])
   \<and> source_type first_manifesto_db = ''manifestos''
   \<and> fst (get_documents_for_each_party first_manifesto_db stub_question 5 0)
       = Inr (PyDict [(''spd'', PyList [PyStr ''first''])])"
proof -
  let ?dbs = "[first_manifesto_db, second_manifesto_db]"
  obtain chain where build: "generate_chain_with_balanced_retrieval stub_framework ?dbs
      (Some stub_llm) ''str'' (0::int) 5 True ''Deutsch'' = Inr chain"
    using balanced_with_context[OF stub_select_str] by blast
  have c: "\<forall>db\<in>set ?dbs. returns (build_context db stub_question 5) (stub_text db)"
    and d: "\<forall>db\<in>set ?dbs. returns (get_documents_for_each_party db stub_question 5) (stub_docs db)"
    by (simp_all add: first_manifesto_db_def second_manifesto_db_def stub_db_returns
        stub_db_text_docs)
  have j: "join ''\<newline>\<newline>'' (map stub_text ?dbs) = ''A\<newline>\<newline>B''"
    and m: "docs_mapping ?dbs stub_docs = [(''manifestos'', PyDict [(''spd'', PyList [PyStr ''second''])])]"
    by (simp_all add: first_manifesto_db_def second_manifesto_db_def stub_db_text_docs
        docs_mapping_def)
  have fill: "format_prompt (py_repr stub_framework)
      deutsch_prompt
      (PyDict (prompt_input True stub_question (join ''\<newline>\<newline>'' (map stub_text ?dbs))
                 (docs_mapping ?dbs stub_docs)))
      = Inr (balanced_prompt_filled ''Deutsch'' ''A\<newline>\<newline>B''
               ''Was ist die Position der SPD zur Solarenergie?'')"
    by (rule stub_balanced_fill)
       (simp_all add: prompt_input_def stub_question_def first_manifesto_db_def
          second_manifesto_db_def stub_db_text_docs)
  have "fst (invoke chain stub_question 0)
      = Inr (PyDict [(''question'', stub_question),
                    (''context'', PyStr ''A\<newline>\<newline>B''),
                    (''docs'', PyDict [(''manifestos'', PyDict [(''spd'', PyList [PyStr ''second''])])]),
                    (''answer'', PyStr stub_payload)])"
    using balanced_run_with_context(1)
      [OF stub_select_str c d fill stub_llm_returns build, of 0, unfolded j m]
    by (simp add: parse_output_def)
  then show ?thesis
    using build
    by (simp add: run_chain_def first_manifesto_db_def stub_db_def)
qed

section \<open>The answer of the verbose single-retriever chain\<close>

text \<open>
  C3. Built in JSON mode with \<open>verbose = True\<close>, the chain does not parse the model's
  output: on the stubs, whose model emits a payload that the selected parser reads
  as the six-field object, the \<open>answer\<close> entry is the payload text itself. The chain
  built with \<open>verbose = False\<close> from the same arguments returns the parsed object.
\<close>

theorem verbose_json_answer_is_raw_text:
  "run_chain (generate_chain stub_framework stub_retriever (Some stub_llm) ''json'' True 0)
       stub_question 0
     = Inr (PyDict [(''context'', stub_documents), (''question'', stub_question),
                    (''answer'', PyStr stub_payload)])
   \<and> parse_output stub_framework (JsonOutputParser PartySummaries) stub_payload
       = Inr (PyDict stub_summaries)
   \<and> run_chain (generate_chain stub_framework stub_retriever (Some stub_llm) ''json'' False 0)
       stub_question 0
     = Inr (PyDict stub_summaries)"
proof -
  obtain p qp where sel: "select_output_parser stub_framework single_prompt_template ''json''
      = Inr (p, qp)"
    using select_total_json by blast
  have p: "p = JsonOutputParser PartySummaries" using select_cases[OF sel] by simp
  have r: "returns (stub_retriever stub_question) stub_documents"
    by (simp add: returns_def stub_retriever_def)
  obtain verbose_chain where v: "generate_chain stub_framework stub_retriever (Some stub_llm)
      ''json'' True (0::int) = Inr verbose_chain"
    using generate_chain_verbose[OF sel] by blast
  obtain plain_chain where pl: "generate_chain stub_framework stub_retriever (Some stub_llm)
      ''json'' False (0::int) = Inr plain_chain"
    using generate_chain_plain[OF sel] by blast
  have parse: "parse_output stub_framework (JsonOutputParser PartySummaries) stub_payload
       = Inr (PyDict stub_summaries)"
    by (simp add: parse_output_def stub_framework_def)
  show ?thesis
    using verbose_run(1)[OF sel r stub_llm_returns v, of 0]
      plain_run(1)[OF sel r stub_llm_returns pl, of 0] v pl parse
    by (simp add: run_chain_def p)
qed

text \<open>
  C7. On the same stubs, the six party keys cannot be read from the answer of the
  chain built in JSON mode with \<open>verbose = True\<close>, the answer being a text; they can be
  read, with the values of the payload, from the answer of the balanced chain built
  in JSON mode.
\<close>

theorem verbose_json_answer_exposes_no_party_key:
  "map (answer_field
          (run_chain (generate_chain stub_framework stub_retriever (Some stub_llm) ''json'' True 0)
             stub_question 0))
       [''cdu'', ''spd'', ''gruene'', ''linke'', ''fdp'', ''afd'']
     = replicate 6 (Inl (TypeError ''object is not subscriptable by a str key''))
   \<and> map (answer_field
          (run_chain (generate_chain_with_balanced_retrieval stub_framework three_dbs
                        (Some stub_llm) ''json'' 0 5 False ''Deutsch'') stub_question 0))
       [''cdu'', ''spd'', ''gruene'', ''linke'', ''fdp'', ''afd'']
     = [Inr (PyStr ''c''), Inr (PyStr ''s''), Inr (PyStr ''g''),
        Inr (PyStr ''l''), Inr (PyStr ''f''), Inr (PyStr ''a'')]"
proof -
  obtain p qp where sel: "select_output_parser stub_framework single_prompt_template ''json''
      = Inr (p, qp)"
    using select_total_json by blast
  have r: "returns (stub_retriever stub_question) stub_documents"
    by (simp add: returns_def stub_retriever_def)
  obtain verbose_chain where v: "generate_chain stub_framework stub_retriever (Some stub_llm)
      ''json'' True (0::int) = Inr verbose_chain"
    using generate_chain_verbose[OF sel] by blast
  have one: "run_chain (generate_chain stub_framework stub_retriever (Some stub_llm) ''json'' True 0)
       stub_question 0
     = Inr (PyDict [(''context'', stub_documents), (''question'', stub_question),
                    (''answer'', PyStr stub_payload)])"
    using verbose_run(1)[OF sel r stub_llm_returns v, of 0] v by (simp add: run_chain_def)
  obtain bp bqp where bsel: "select_output_parser stub_framework
      (balanced_prompt_template ''Deutsch'') ''json'' = Inr (bp, bqp)"
    using select_total_json by blast
  have bp: "bp = JsonOutputParser PartySummaries" using select_cases[OF bsel] by simp
  obtain chain where b: "generate_chain_with_balanced_retrieval stub_framework three_dbs
      (Some stub_llm) ''json'' (0::int) 5 False ''Deutsch'' = Inr chain"
    using balanced_without_context[OF bsel] by blast
  have fill: "format_prompt (py_repr stub_framework) bqp
      (PyDict (prompt_input False stub_question (join ''\<newline>\<newline>'' (map stub_text three_dbs)) []))
      = Inr (balanced_prompt_filled ''Deutsch''
               (py_str (py_repr stub_framework) (PyStr ''A\<newline>\<newline>B\<newline>\<newline>C''))
               (py_str (py_repr stub_framework) stub_question)
             @ format_suffix stub_framework ''json'')"
    by (rule balanced_prompt_fill[OF bsel]) (simp_all add: prompt_input_def three_dbs_join)
  have two: "run_chain (generate_chain_with_balanced_retrieval stub_framework three_dbs
                        (Some stub_llm) ''json'' 0 5 False ''Deutsch'') stub_question 0
     = Inr (PyDict [(''question'', stub_question), (''answer'', PyDict stub_summaries)])"
    using balanced_run_without_context(1)[OF bsel three_dbs_returns(1) fill stub_llm_returns b, of 0] b
    by (simp add: run_chain_def bp parse_output_def stub_framework_def)
  show ?thesis
    unfolding one two
    by (simp add: answer_field_def getitem_def stub_summaries_def numeral_eq_Suc)
qed

section \<open>Repeated invocation\<close>

text \<open>
  C8. A pipeline built by either builder, in any configuration, holds no state of its
  own: when the outcome of every collaborator call is the same in every world
  (deterministic stubs, which may still change the world), the outcome of an
  invocation is the same from every world. In particular a second invocation on the
  same input, run in the world the first one left behind, has the outcome of the
  first.
\<close>

theorem repeated_invocation_gives_same_outcome:
  assumes "generate_chain fw retriever llm output_parser verbose temperature = Inr chain
           \<or> generate_chain_with_balanced_retrieval fw dbs llm output_parser temperature k
                return_context language = Inr chain"
    and "\<forall>q. deterministic (retriever q)"
    and "\<forall>p. deterministic (llm_or_default fw llm temperature p)"
    and "\<forall>db\<in>set dbs. \<forall>q. deterministic (build_context db q k)
                              \<and> deterministic (get_documents_for_each_party db q k)"
  shows "fst (invoke chain x (world (snd (invoke chain x w)))) = fst (invoke chain x w)
         \<and> fst (invoke chain x w') = fst (invoke chain x w)"
proof -
  have "stateless (chain x)"
    using assms(1)
  proof
    assume "generate_chain fw retriever llm output_parser verbose temperature = Inr chain"
    then show ?thesis
      using assms(2,3) by (intro stateless_single_chain) auto
  next
    assume "generate_chain_with_balanced_retrieval fw dbs llm output_parser temperature k
                return_context language = Inr chain"
    then show ?thesis
      using assms(3,4) by (intro stateless_balanced_chain) auto
  qed
  then show ?thesis
    by (simp add: stateless_def invoke_def)
qed

theorem repeated_invocation_gives_same_outcome_witness:
  "(\<exists>chain. generate_chain stub_framework stub_retriever (Some stub_llm) ''json'' False 0
               = Inr chain
       \<and> fst (invoke chain stub_question 0) = Inr (PyDict stub_summaries)
       \<and> world (snd (invoke chain stub_question 0)) = 2
       \<and> fst (invoke chain stub_question (world (snd (invoke chain stub_question 0))))
           = fst (invoke chain stub_question 0))"
proof -
  obtain p qp where sel: "select_output_parser stub_framework single_prompt_template ''json''
      = Inr (p, qp)"
    using select_total_json by blast
  have p: "p = JsonOutputParser PartySummaries" using select_cases[OF sel] by simp
  obtain chain where build: "generate_chain stub_framework stub_retriever (Some stub_llm)
      ''json'' False (0::int) = Inr chain"
    using generate_chain_plain[OF sel] by blast
  have r: "returns (stub_retriever stub_question) stub_documents"
    by (simp add: returns_def stub_retriever_def)
  have out: "fst (invoke chain stub_question 0) = Inr (PyDict stub_summaries)"
    using plain_run(1)[OF sel r stub_llm_returns build, of 0]
    by (simp add: p parse_output_def stub_framework_def)
  have chain: "chain = pipe (pipe (pipe (RunnableParallel
                              [(''context'', retriever_invoke stub_retriever),
                               (''question'', RunnablePassthrough)])
                           (prompt_invoke stub_framework qp))
                     (llm_invoke (llm_or_default stub_framework (Some stub_llm) (0::int))))
               (parser_invoke stub_framework p)"
    using build generate_chain_plain[OF sel, of stub_retriever "Some stub_llm" 0] by simp
  have fill: "format_prompt (py_repr stub_framework) qp
      (PyDict [(''context'', stub_documents), (''question'', stub_question)])
      = Inr (single_prompt_filled (py_str (py_repr stub_framework) stub_question)
               (py_str (py_repr stub_framework) stub_documents)
             @ format_suffix stub_framework ''json'')"
    by (rule single_prompt_fill[OF sel]) simp_all
  have w: "world (snd (invoke chain stub_question 0)) = 2"
    unfolding chain using fill
    by (simp add: run_simps stub_retriever_def stub_llm_def llm_or_default_def)
  have d1: "\<forall>q. deterministic (stub_retriever q)"
    and d2: "\<forall>pr. deterministic (llm_or_default stub_framework (Some stub_llm) (0::int) pr)"
    and d3: "\<forall>db\<in>set three_dbs. \<forall>q. deterministic (build_context db q 5)
                              \<and> deterministic (get_documents_for_each_party db q 5)"
    by (simp_all add: deterministic_def stub_retriever_def stub_llm_def llm_or_default_def
        three_dbs_def stub_db_def)
  note inst = repeated_invocation_gives_same_outcome
    [where fw = stub_framework and retriever = stub_retriever and llm = "Some stub_llm"
       and output_parser = "''json''" and verbose = False and temperature = 0 and chain = chain
       and dbs = three_dbs and k = 5 and return_context = False and language = "''Deutsch''"
       and x = stub_question and w = 0 and w' = 0,
     OF disjI1[OF build] d1 d2 d3]
  show ?thesis
    by (rule exI[of _ chain]) (intro conjI build out w conjunct1[OF inst])
qed

end
